theory Spec2Isabelle
  imports Complex_Main
begin

section \<open>JavaScript values shared by the modules\<close>

text \<open>
  A thrown JavaScript value. \<open>JsError name message\<close> is an instance of \<open>Error\<close>;
  \<open>JsThrown s\<close> is any other thrown value, kept as the string \<open>String(err)\<close> gives.
\<close>

datatype js_exn = JsError string string | JsThrown string

text \<open>The idiom \<^verbatim>\<open>err instanceof Error ? err.message : String(err)\<close>.\<close>

fun err_text :: "js_exn \<Rightarrow> string" where
  "err_text (JsError nm msg) = msg"
| "err_text (JsThrown s) = s"

text \<open>Decimal rendering of a non-negative integer inside a template string.\<close>

fun show_nat :: "nat \<Rightarrow> string" where
  "show_nat n =
     (if n < 10 then [''0123456789'' ! n]
      else show_nat (n div 10) @ [''0123456789'' ! (n mod 10)])"

declare show_nat.simps [simp del]

text \<open>
  A \<open>Date\<close>: its time value is a whole number of milliseconds since the epoch, or NaN for
  an invalid date (\<open>None\<close>). The relational operators compare the time values, and every
  comparison with NaN is false.
\<close>

type_synonym jsdate = "int option"

fun date_ge :: "jsdate \<Rightarrow> jsdate \<Rightarrow> bool" where
  "date_ge (Some a) (Some b) = (a \<ge> b)"
| "date_ge _ _ = False"

fun date_lt :: "jsdate \<Rightarrow> jsdate \<Rightarrow> bool" where
  "date_lt (Some a) (Some b) = (a < b)"
| "date_lt _ _ = False"


section \<open>config.ts: the configuration types\<close>

record CameraConfig =
  rtsp_url :: string

record LocationConfig =
  loc_name :: string
  latitude :: real
  longitude :: real
  timezone :: string

record ScheduleConfig =
  day_interval_minutes :: nat
  night_interval_minutes :: nat

record ApiConfig =
  api_url :: string
  api_key :: string
  timeout_seconds :: nat

datatype overlay_position = TopLeft | TopRight | BottomLeft | BottomRight

datatype icon_side = IconLeft | IconRight

text \<open>
  The icon block of the METAR section. \<open>url\<close>, \<open>path\<close> and \<open>svg\<close> are optional; the schema
  gives \<open>size\<close> and \<open>position\<close> defaults, so they are always present after parsing.
\<close>

record IconConfig =
  icon_url :: "string option"
  icon_path :: "string option"
  icon_svg :: "string option"
  icon_size :: nat
  icon_position :: icon_side

record MetarConfig =
  enabled :: bool
  icao_code :: string
  overlay_pos :: overlay_position
  font_size :: nat
  font_color :: string
  background_color :: string
  icon :: "IconConfig option"

record Config =
  camera :: CameraConfig
  location :: LocationConfig
  schedule :: ScheduleConfig
  api :: ApiConfig
  metar :: MetarConfig


section \<open>sun.ts\<close>

record SunTimes =
  sunrise :: jsdate
  sunset :: jsdate

text \<open>
  \<open>SunCalc.getTimes\<close> belongs to an external library; it is the parameter \<open>suncalc\<close>,
  a function of the date, the latitude and the longitude. Near the poles it yields
  invalid dates.
\<close>

type_synonym suncalc = "jsdate \<Rightarrow> real \<Rightarrow> real \<Rightarrow> SunTimes"

definition getSunTimes :: "suncalc \<Rightarrow> jsdate \<Rightarrow> LocationConfig \<Rightarrow> SunTimes" where
  "getSunTimes getTimes date loc =
     (let times = getTimes date (latitude loc) (longitude loc)
      in \<lparr>sunrise = sunrise times, sunset = sunset times\<rparr>)"

definition isDay :: "suncalc \<Rightarrow> jsdate \<Rightarrow> LocationConfig \<Rightarrow> bool" where
  "isDay getTimes date loc =
     (let times = getSunTimes getTimes date loc
      in date_ge date (sunrise times) \<and> date_lt date (sunset times))"

definition getNextCaptureInterval ::
  "suncalc \<Rightarrow> jsdate \<Rightarrow> LocationConfig \<Rightarrow> nat \<Rightarrow> nat \<Rightarrow> nat" where
  "getNextCaptureInterval getTimes date loc dayIntervalMinutes nightIntervalMinutes =
     (if isDay getTimes date loc then dayIntervalMinutes else nightIntervalMinutes)"


section \<open>Images and observable effects\<close>

datatype gravity = northwest | northeast | southwest | southeast

text \<open>
  Image processing is done by the external library sharp and the SVG markup is assembled
  with regular expressions; both are kept symbolic. \<open>WrapSvgWithSize content w h\<close> stands
  for the string \<open>wrapSvgWithSize(content, w, h)\<close>. A \<open>badge\<close> holds what the overlay
  SVG is made of: the background, the optional embedded icon (its markup and size) and
  the text element. The box width and the icon offsets, which the code computes in
  floating point, are not part of it.
\<close>

datatype icon_markup = WrapSvgWithSize string nat nat

record badge =
  box_height :: nat
  rect_fill :: string
  foreign_icon :: "(icon_markup \<times> nat) option"
  text_x :: nat
  text_y :: nat
  text_font_size :: nat
  text_fill :: string
  text_content :: string

text \<open>
  An image buffer: the bytes ffmpeg wrote, or the JPEG that sharp encodes after compositing a
  badge onto an image at a corner.
\<close>

datatype image = Frame string | Composite image badge gravity

record UploadMetadata =
  captureTimestamp :: int
  locationName :: string
  meta_isDay :: bool

text \<open>Console output, one constructor for each call site, with the values it prints.\<close>

datatype console_msg =
    LogSkipBusy
  | LogStarting int bool
  | LogCaptureFailed "string option"
  | LogCaptured image
  | LogMetarOverlay string
  | LogAddedOverlay image
  | LogOverlayFailed string
  | LogMetarFailed "string option"
  | LogRetryAfter int
  | LogUploadOk "string option"
  | LogUploadFailed "string option"
  | LogUnexpected string
  | LogScheduling nat bool
  | LogUploadRetry nat nat
  | LogIconFetchFailed string nat

text \<open>
  What a run does to the outside world, in the order it happens: console output, the ffmpeg
  subprocess, the HTTP requests, file reads, the image library and timer sleeps.
\<close>

datatype event =
    Console console_msg
  | SpawnFfmpeg string
  | HttpGetMetar string
  | SharpMetadata image
  | ReadFileSync string
  | HttpGetIcon string
  | SharpComposite image badge gravity
  | HttpPut ApiConfig UploadMetadata image
  | Sleep nat


section \<open>upload.ts\<close>

record UploadResponse =
  resp_id :: string
  received_at :: string
  size_bytes :: nat

record UploadResult =
  up_success :: bool
  statusCode :: "nat option"
  responseBody :: "UploadResponse option"
  up_error :: "string option"

definition MAX_RETRIES :: nat where
  "MAX_RETRIES = 3"

definition INITIAL_BACKOFF_MS :: nat where
  "INITIAL_BACKOFF_MS = 1000"

text \<open>
  What the network does to one PUT request: \<open>fetch\<close> rejects (a network error, or an
  \<open>AbortError\<close> when the timeout aborts the request), or it resolves to a response with a
  status, whose body is then read with \<open>json()\<close> or \<open>text()\<close>; reading the body can
  throw as well.
\<close>

datatype put_outcome =
    FetchRejects js_exn
  | FetchResponse nat "js_exn + UploadResponse" "js_exn + string"

text \<open>The \<open>catch\<close> block of \<open>attemptUpload\<close>: a timeout becomes a result, anything else is rethrown.\<close>

fun attemptUpload_catch :: "ApiConfig \<Rightarrow> js_exn \<Rightarrow> js_exn + UploadResult" where
  "attemptUpload_catch apiConfig (JsError nm msg) =
     (if nm = ''AbortError''
      then Inr \<lparr>up_success = False, statusCode = None, responseBody = None,
             up_error = Some (''Request timeout after '' @ show_nat (timeout_seconds apiConfig) @ ''s'')\<rparr>
      else Inl (JsError nm msg))"
| "attemptUpload_catch apiConfig (JsThrown s) = Inl (JsThrown s)"

fun attemptUpload :: "ApiConfig \<Rightarrow> put_outcome \<Rightarrow> js_exn + UploadResult" where
  "attemptUpload apiConfig (FetchRejects err) = attemptUpload_catch apiConfig err"
| "attemptUpload apiConfig (FetchResponse status json text) =
     (if status = 201 then
        (case json of
           Inl err \<Rightarrow> attemptUpload_catch apiConfig err
         | Inr body \<Rightarrow>
             Inr \<lparr>up_success = True, statusCode = Some status, responseBody = Some body,
                  up_error = None\<rparr>)
      else
        (case text of
           Inl err \<Rightarrow> attemptUpload_catch apiConfig err
         | Inr errorText \<Rightarrow>
             Inr \<lparr>up_success = False, statusCode = Some status, responseBody = None,
                  up_error = Some (''HTTP '' @ show_nat status @ '': '' @ errorText)\<rparr>))"

text \<open>
  How the \<open>try\<close> block of one loop iteration ends: with a \<open>return\<close> of the result, or by
  falling through to the backoff with a new value of \<open>lastError\<close>.
\<close>

datatype try_end = Returns UploadResult | FallsThrough "string option"

text \<open>
  The test \<^verbatim>\<open>result.statusCode && result.statusCode >= 400 && result.statusCode < 500 &&
  result.statusCode !== 429\<close>; an absent status and the status 0 are falsy.
\<close>

fun is_client_error :: "nat option \<Rightarrow> bool" where
  "is_client_error None = False"
| "is_client_error (Some c) = (c \<noteq> 0 \<and> c \<ge> 400 \<and> c < 500 \<and> c \<noteq> 429)"

definition upload_try :: "js_exn + UploadResult \<Rightarrow> js_exn + try_end" where
  "upload_try attempted =
     (case attempted of
        Inl err \<Rightarrow> Inl err
      | Inr result \<Rightarrow>
          if up_success result then Inr (Returns result)
          else if is_client_error (statusCode result) then Inr (Returns result)
          else Inr (FallsThrough (up_error result)))"

definition upload_try_catch :: "js_exn + UploadResult \<Rightarrow> js_exn + try_end" where
  "upload_try_catch attempted =
     (case upload_try attempted of
        Inl err \<Rightarrow> Inr (FallsThrough (Some (err_text err)))
      | Inr e \<Rightarrow> Inr e)"

definition backoff_events :: "nat \<Rightarrow> event list" where
  "backoff_events attempt =
     (if attempt < MAX_RETRIES
      then (let backoffMs = INITIAL_BACKOFF_MS * 2 ^ (attempt - 1)
            in [Console (LogUploadRetry attempt backoffMs), Sleep backoffMs])
      else [])"

text \<open>A template string renders \<open>undefined\<close> as the word.\<close>

fun show_opt :: "string option \<Rightarrow> string" where
  "show_opt None = ''undefined''"
| "show_opt (Some s) = s"

text \<open>
  The \<open>for\<close> loop of \<open>uploadImage\<close> from the iteration \<open>attempt\<close> on. \<open>net k\<close> is what the
  network does to the \<open>k\<close>-th request. The result is what the promise settles to (\<open>Inl\<close>: it
  rejects) and the effects in order.
\<close>

function upload_loop ::
  "ApiConfig \<Rightarrow> UploadMetadata \<Rightarrow> image \<Rightarrow> (nat \<Rightarrow> put_outcome) \<Rightarrow> nat \<Rightarrow> string option
     \<Rightarrow> (js_exn + UploadResult) \<times> event list" where
  "upload_loop apiConfig metadata imageBuffer net attempt lastError =
     (if attempt \<le> MAX_RETRIES then
        (case upload_try_catch (attemptUpload apiConfig (net attempt)) of
           Inl err \<Rightarrow> (Inl err, [HttpPut apiConfig metadata imageBuffer])
         | Inr (Returns result) \<Rightarrow> (Inr result, [HttpPut apiConfig metadata imageBuffer])
         | Inr (FallsThrough lastError') \<Rightarrow>
             (let (r, evs) = upload_loop apiConfig metadata imageBuffer net (attempt + 1) lastError'
              in (r, HttpPut apiConfig metadata imageBuffer # backoff_events attempt @ evs)))
      else
        (Inr \<lparr>up_success = False, statusCode = None, responseBody = None,
              up_error = Some (''All '' @ show_nat MAX_RETRIES
                               @ '' upload attempts failed. Last error: '' @ show_opt lastError)\<rparr>,
         []))"
  by pat_completeness auto
termination
  by (relation "measure (\<lambda>(apiConfig, metadata, imageBuffer, net, attempt, lastError).
                           MAX_RETRIES + 1 - attempt)") auto

declare upload_loop.simps [simp del]

definition uploadImage ::
  "ApiConfig \<Rightarrow> UploadMetadata \<Rightarrow> image \<Rightarrow> (nat \<Rightarrow> put_outcome)
     \<Rightarrow> (js_exn + UploadResult) \<times> event list" where
  "uploadImage apiConfig metadata imageBuffer net =
     upload_loop apiConfig metadata imageBuffer net 1 None"


section \<open>capture.ts\<close>

record CaptureResult =
  cap_success :: bool
  cap_image :: "image option"
  cap_error :: "string option"

text \<open>
  What \<open>spawnSync\<close> returns: the message of \<open>error\<close> when the process could not be run or
  timed out, the exit status (\<open>null\<close> when a signal killed it), and the two output buffers.
\<close>

record SpawnSyncReturns =
  spawn_error :: "string option"
  spawn_status :: "nat option"
  spawn_stderr :: "string option"
  spawn_stdout :: "string option"

fun show_status :: "nat option \<Rightarrow> string" where
  "show_status None = ''null''"
| "show_status (Some n) = show_nat n"

text \<open>The expression \<^verbatim>\<open>result.stderr?.toString() || 'Unknown error'\<close>.\<close>

fun stderr_text :: "string option \<Rightarrow> string" where
  "stderr_text None = ''Unknown error''"
| "stderr_text (Some []) = ''Unknown error''"
| "stderr_text (Some s) = s"

definition captureFrame_result :: "SpawnSyncReturns \<Rightarrow> CaptureResult" where
  "captureFrame_result result =
     (case spawn_error result of
        Some message \<Rightarrow>
          \<lparr>cap_success = False, cap_image = None,
           cap_error = Some (''ffmpeg spawn error: '' @ message)\<rparr>
      | None \<Rightarrow>
          if spawn_status result \<noteq> Some 0 then
            \<lparr>cap_success = False, cap_image = None,
             cap_error = Some (''ffmpeg exited with code '' @ show_status (spawn_status result)
                               @ '': '' @ stderr_text (spawn_stderr result))\<rparr>
          else
            (case spawn_stdout result of
               None \<Rightarrow>
                 \<lparr>cap_success = False, cap_image = None,
                  cap_error = Some ''ffmpeg produced no output''\<rparr>
             | Some out \<Rightarrow>
                 if length out = 0 then
                   \<lparr>cap_success = False, cap_image = None,
                    cap_error = Some ''ffmpeg produced no output''\<rparr>
                 else \<lparr>cap_success = True, cap_image = Some (Frame out), cap_error = None\<rparr>))"

text \<open>
  \<open>captureFrame\<close> runs ffmpeg once, synchronously. \<open>spawnSync\<close> itself can throw (on an
  argument it rejects), and \<open>captureFrame\<close> has no handler, so the exception leaves it.
\<close>

definition captureFrame ::
  "js_exn + SpawnSyncReturns \<Rightarrow> string \<Rightarrow> (js_exn + CaptureResult) \<times> event list" where
  "captureFrame spawned rtspUrl =
     (case spawned of
        Inl err \<Rightarrow> (Inl err, [SpawnFfmpeg rtspUrl])
      | Inr result \<Rightarrow> (Inr (captureFrame_result result), [SpawnFfmpeg rtspUrl]))"


section \<open>metar.ts\<close>

text \<open>
  The body of the weather service's answer is parsed by \<open>response.json()\<close> and cast to the
  declared types without a check, so the code works on whatever JSON arrives. A number is
  kept as the text \<open>String\<close> gives for it, an object as the list of its properties (of a key
  that occurs twice, the entry \<open>JSON.parse\<close> keeps comes first). A string is the list of its
  UTF-16 code units, each taken to be below 256.
\<close>

datatype json =
    JNull | JBool bool | JNum string | JStr string | JArr "json list"
  | JObj "(string \<times> json) list"

text \<open>A value used as a condition.\<close>

fun truthy :: "json \<Rightarrow> bool" where
  "truthy JNull = False"
| "truthy (JBool b) = b"
| "truthy (JNum n) = (n \<noteq> ''0'' \<and> n \<noteq> ''NaN'')"
| "truthy (JStr s) = (s \<noteq> [])"
| "truthy (JArr xs) = True"
| "truthy (JObj ps) = True"

text \<open>\<open>Array.prototype.join\<close> on strings.\<close>

fun js_join :: "string \<Rightarrow> string list \<Rightarrow> string" where
  "js_join sep [] = []"
| "js_join sep [s] = s"
| "js_join sep (s # t # ts) = s @ sep @ js_join sep (t # ts)"

text \<open>
  \<open>String(v)\<close>, which is also what a template string makes of \<open>v\<close>. An array gives its
  elements joined by commas, \<open>null\<close> elements giving nothing.
\<close>

fun js_string :: "json \<Rightarrow> string" where
  "js_string JNull = ''null''"
| "js_string (JBool b) = (if b then ''true'' else ''false'')"
| "js_string (JNum n) = n"
| "js_string (JStr s) = s"
| "js_string (JArr xs) = js_join '','' (map (\<lambda>x. if x = JNull then [] else js_string x) xs)"
| "js_string (JObj ps) = ''[object Object]''"

text \<open>A property read inside a template string: \<open>undefined\<close> is rendered as the word.\<close>

fun template :: "json option \<Rightarrow> string" where
  "template None = ''undefined''"
| "template (Some v) = js_string v"

text \<open>An element of \<open>parts\<close> as \<open>join\<close> renders it: \<open>undefined\<close> and \<open>null\<close> give nothing.\<close>

fun joined :: "json option \<Rightarrow> string" where
  "joined None = []"
| "joined (Some JNull) = []"
| "joined (Some v) = js_string v"

text \<open>
  The reads \<open>metar.rawOb\<close>, \<open>metar.icaoId\<close>, \<open>metar.wdir\<close>, \<open>metar.wspd\<close>, \<open>metar.fltCat\<close> and
  \<open>metar.temp\<close> on a value other than \<open>null\<close>: an object gives the property, if it has it;
  a number, a boolean, a string and an array have none of these.
\<close>

fun property :: "json \<Rightarrow> string \<Rightarrow> json option" where
  "property (JObj ps) key = map_of ps key"
| "property v key = None"

definition is_digit :: "char \<Rightarrow> bool" where
  "is_digit c = (c \<in> set ''0123456789'')"

text \<open>\<^verbatim>\<open>rawOb.match(/\d{6}Z/)\<close>: the leftmost run of six digits followed by \<open>Z\<close>.\<close>

fun match_time :: "string \<Rightarrow> string option" where
  "match_time [] = None"
| "match_time (c # cs) =
     (if 7 \<le> length (c # cs) \<and> list_all is_digit (take 6 (c # cs)) \<and> (c # cs) ! 6 = CHR ''Z''
      then Some (take 7 (c # cs))
      else match_time cs)"

text \<open>\<^verbatim>\<open>padStart(3, '0')\<close>.\<close>

definition padStart3 :: "string \<Rightarrow> string" where
  "padStart3 s = replicate (3 - length s) (CHR ''0'') @ s"

text \<open>
  \<open>formatMetarOverlay\<close>. The call \<open>metar.rawOb.match\<close> throws a \<open>TypeError\<close> unless \<open>rawOb\<close> is
  a string (the messages are those of Node.js); the function has no handler. The degree
  sign is the code unit 176.
\<close>

definition formatMetarOverlay :: "json \<Rightarrow> js_exn + string" where
  "formatMetarOverlay metarRecord =
     (case metarRecord of
        JNull \<Rightarrow>
          Inl (JsError ''TypeError''
                 (''Cannot read properties of null (reading '' @ [CHR 0x27] @ ''rawOb''
                    @ [CHR 0x27] @ '')''))
      | _ \<Rightarrow>
          (case property metarRecord ''rawOb'' of
             None \<Rightarrow>
               Inl (JsError ''TypeError''
                      (''Cannot read properties of undefined (reading '' @ [CHR 0x27] @ ''match''
                         @ [CHR 0x27] @ '')''))
           | Some JNull \<Rightarrow>
               Inl (JsError ''TypeError''
                      (''Cannot read properties of null (reading '' @ [CHR 0x27] @ ''match''
                         @ [CHR 0x27] @ '')''))
           | Some (JStr rawOb) \<Rightarrow>
               (let station =
                      (case match_time rawOb of
                         Some timeMatch \<Rightarrow>
                           template (property metarRecord ''icaoId'') @ '' '' @ timeMatch
                       | None \<Rightarrow> joined (property metarRecord ''icaoId''));
                    wind =
                      (case (property metarRecord ''wdir'', property metarRecord ''wspd'') of
                         (Some wdir, Some wspd) \<Rightarrow>
                           [padStart3 (js_string wdir) @ ''/'' @ js_string wspd @ ''kt'']
                       | _ \<Rightarrow> []);
                    temperature =
                      (case property metarRecord ''temp'' of
                         Some temp \<Rightarrow> [js_string temp @ [CHR 0xB0, CHR ''C'']]
                       | None \<Rightarrow> [])
                in Inr (js_join '' | ''
                          ([station] @ wind @ [joined (property metarRecord ''fltCat'')]
                             @ temperature)))
           | Some other \<Rightarrow> Inl (JsError ''TypeError'' ''metar.rawOb.match is not a function'')))"

record MetarResult =
  metar_success :: bool
  metar_data :: "json option"
  metar_error :: "string option"
  retryAfterSeconds :: "int option option"

text \<open>
  The \<open>Retry-After\<close> header of a response: absent, the empty string, or a non-empty string,
  given by what \<open>parseInt(s, 10)\<close> reads from it (\<open>None\<close> is NaN).
\<close>

datatype retry_after_header = NoRetryAfter | EmptyRetryAfter | RetryAfter "int option"

datatype metar_outcome =
    MetarFetchRejects js_exn
  | MetarResponse nat retry_after_header "js_exn + json"

definition response_ok :: "nat \<Rightarrow> bool" where
  "response_ok status = (200 \<le> status \<and> status \<le> 299)"

text \<open>The test \<^verbatim>\<open>data.length === 0\<close> on a truthy value.\<close>

fun length_is_zero :: "json \<Rightarrow> bool" where
  "length_is_zero (JArr xs) = (xs = [])"
| "length_is_zero (JStr s) = (s = [])"
| "length_is_zero (JObj ps) = (map_of ps ''length'' = Some (JNum ''0''))"
| "length_is_zero v = False"

text \<open>The read \<^verbatim>\<open>data[0]\<close> on a truthy value; \<open>None\<close> is \<open>undefined\<close>.\<close>

fun element_zero :: "json \<Rightarrow> json option" where
  "element_zero (JArr []) = None"
| "element_zero (JArr (x # xs)) = Some x"
| "element_zero (JStr []) = None"
| "element_zero (JStr (c # cs)) = Some (JStr [c])"
| "element_zero (JObj ps) = map_of ps ''0''"
| "element_zero v = None"

fun fetchMetar_try :: "metar_outcome \<Rightarrow> js_exn + MetarResult" where
  "fetchMetar_try (MetarFetchRejects err) = Inl err"
| "fetchMetar_try (MetarResponse status retryAfter body) =
     (if status = 204 then
        Inr \<lparr>metar_success = False, metar_data = None,
             metar_error = Some ''No METAR data available'', retryAfterSeconds = None\<rparr>
      else if status = 429 then
        (let waitSeconds = (case retryAfter of RetryAfter v \<Rightarrow> v | _ \<Rightarrow> Some 60)
         in Inr \<lparr>metar_success = False, metar_data = None,
                 metar_error = Some ''Rate limited by Aviation Weather API'',
                 retryAfterSeconds = Some waitSeconds\<rparr>)
      else if status = 400 then
        Inr \<lparr>metar_success = False, metar_data = None,
             metar_error = Some ''Invalid METAR request'', retryAfterSeconds = None\<rparr>
      else if \<not> response_ok status then
        Inr \<lparr>metar_success = False, metar_data = None,
             metar_error = Some (''METAR API error: HTTP '' @ show_nat status),
             retryAfterSeconds = None\<rparr>
      else
        (case body of
           Inl err \<Rightarrow> Inl err
         | Inr data \<Rightarrow>
             if \<not> truthy data \<or> length_is_zero data then
               Inr \<lparr>metar_success = False, metar_data = None,
                    metar_error = Some ''No METAR data in response'', retryAfterSeconds = None\<rparr>
             else
               Inr \<lparr>metar_success = True, metar_data = element_zero data, metar_error = None,
                    retryAfterSeconds = None\<rparr>))"

text \<open>The whole body of \<open>fetchMetar\<close> is a \<open>try\<close> whose \<open>catch\<close> turns any exception into a result.\<close>

definition fetchMetar ::
  "metar_outcome \<Rightarrow> string \<Rightarrow> (js_exn + MetarResult) \<times> event list" where
  "fetchMetar net icaoCode =
     (case fetchMetar_try net of
        Inl err \<Rightarrow>
          (Inr \<lparr>metar_success = False, metar_data = None, metar_error = Some (err_text err),
                retryAfterSeconds = None\<rparr>,
           [HttpGetMetar icaoCode])
      | Inr result \<Rightarrow> (Inr result, [HttpGetMetar icaoCode]))"


section \<open>overlay.ts\<close>

fun positionToGravity :: "overlay_position \<Rightarrow> gravity" where
  "positionToGravity TopLeft = northwest"
| "positionToGravity TopRight = northeast"
| "positionToGravity BottomLeft = southwest"
| "positionToGravity BottomRight = southeast"

datatype icon_outcome =
    IconFetchRejects js_exn
  | IconResponse bool nat "js_exn + string"

text \<open>
  What the overlay code finds outside: whether sharp fails to read the image (\<open>metadata()\<close>),
  what \<open>readFileSync\<close> gives for a path, what \<open>fetch\<close> gives for an icon URL (the \<open>ok\<close> flag,
  the status and the body text), and whether sharp fails to composite and encode.
\<close>

record overlay_world =
  sharp_metadata :: "js_exn option"
  read_file :: "string \<Rightarrow> js_exn + string"
  icon_fetch :: "string \<Rightarrow> icon_outcome"
  sharp_toBuffer :: "js_exn option"

text \<open>An optional string used as a condition: \<open>undefined\<close> and the empty string are falsy.\<close>

fun truthy_string :: "string option \<Rightarrow> string option" where
  "truthy_string None = None"
| "truthy_string (Some []) = None"
| "truthy_string (Some s) = Some s"

definition loadIcon ::
  "overlay_world \<Rightarrow> IconConfig option \<Rightarrow> (js_exn + icon_markup option) \<times> event list" where
  "loadIcon w config =
     (case config of
        None \<Rightarrow> (Inr None, [])
      | Some c \<Rightarrow>
          (case truthy_string (icon_svg c) of
             Some svg \<Rightarrow> (Inr (Some (WrapSvgWithSize svg (icon_size c) (icon_size c))), [])
           | None \<Rightarrow>
               (case truthy_string (icon_path c) of
                  Some path \<Rightarrow>
                    (case read_file w path of
                       Inl err \<Rightarrow> (Inl err, [ReadFileSync path])
                     | Inr svgContent \<Rightarrow>
                         (Inr (Some (WrapSvgWithSize svgContent (icon_size c) (icon_size c))),
                          [ReadFileSync path]))
                | None \<Rightarrow>
                    (case truthy_string (icon_url c) of
                       Some url \<Rightarrow>
                         (case icon_fetch w url of
                            IconFetchRejects err \<Rightarrow> (Inl err, [HttpGetIcon url])
                          | IconResponse ok status text \<Rightarrow>
                              if \<not> ok then
                                (Inr None,
                                 [HttpGetIcon url, Console (LogIconFetchFailed url status)])
                              else
                                (case text of
                                   Inl err \<Rightarrow> (Inl err, [HttpGetIcon url])
                                 | Inr svgContent \<Rightarrow>
                                     (Inr (Some (WrapSvgWithSize svgContent (icon_size c)
                                                   (icon_size c))),
                                      [HttpGetIcon url])))
                     | None \<Rightarrow> (Inr None, [])))))"

definition replaceAll :: "char \<Rightarrow> string \<Rightarrow> string \<Rightarrow> string" where
  "replaceAll c by_str s = concat (map (\<lambda>x. if x = c then by_str else [x]) s)"

definition escapeXml :: "string \<Rightarrow> string" where
  "escapeXml text =
     replaceAll (CHR 0x27) ''&apos;''
       (replaceAll (CHR 0x22) ''&quot;''
         (replaceAll CHR ''>'' ''&gt;''
           (replaceAll CHR ''<'' ''&lt;''
             (replaceAll CHR ''&'' ''&amp;'' text))))"

definition addTextOverlay ::
  "overlay_world \<Rightarrow> image \<Rightarrow> string \<Rightarrow> MetarConfig \<Rightarrow> (js_exn + image) \<times> event list" where
  "addTextOverlay w imageBuffer text config =
     (case sharp_metadata w of
        Some err \<Rightarrow> (Inl err, [SharpMetadata imageBuffer])
      | None \<Rightarrow>
          (let padding = 10;
               lineHeight = font_size config + 4;
               iconSize = (case icon config of Some c \<Rightarrow> icon_size c | None \<Rightarrow> 24);
               boxHeight = max (lineHeight + padding * 2) (iconSize + padding * 2);
               (loaded, icon_events) = loadIcon w (icon config)
           in case loaded of
                Inl err \<Rightarrow> (Inl err, SharpMetadata imageBuffer # icon_events)
              | Inr iconBuffer \<Rightarrow>
                  (let textX = (if map_option icon_position (icon config) = Some IconLeft
                                then iconSize + padding + 4 else padding);
                       svg = \<lparr>box_height = boxHeight,
                              rect_fill = background_color config,
                              foreign_icon = map_option (\<lambda>markup. (markup, iconSize)) iconBuffer,
                              text_x = textX,
                              text_y = boxHeight - padding - 2,
                              text_font_size = font_size config,
                              text_fill = font_color config,
                              text_content = escapeXml text\<rparr>;
                       gravity = positionToGravity (overlay_pos config);
                       events = SharpMetadata imageBuffer # icon_events
                                  @ [SharpComposite imageBuffer svg gravity]
                   in case sharp_toBuffer w of
                        Some err \<Rightarrow> (Inl err, events)
                      | None \<Rightarrow> (Inr (Composite imageBuffer svg gravity), events))))"


section \<open>main.ts\<close>

text \<open>
  The timers registered with node-cron. \<open>cron.schedule\<close> creates a task and starts it;
  \<open>stop\<close> halts one task, which then fires no more. The handle of a task is its position
  in the registry.
\<close>

datatype cron_callback = RunCaptureAndUpload | RunTransitionCheck

record cron_task =
  cron_expression :: string
  cron_action :: cron_callback
  cron_running :: bool

text \<open>The module variables of main.ts (the configuration is assigned once, at startup).\<close>

record main_state =
  currentSchedule :: "nat option"
  isRunning :: bool
  cron_tasks :: "cron_task list"

definition initial_state :: main_state where
  "initial_state = \<lparr>currentSchedule = None, isRunning = False, cron_tasks = []\<rparr>"

definition cron_schedule :: "string \<Rightarrow> cron_callback \<Rightarrow> main_state \<Rightarrow> main_state \<times> nat" where
  "cron_schedule expression action s =
     (s\<lparr>cron_tasks := cron_tasks s
          @ [\<lparr>cron_expression = expression, cron_action = action, cron_running = True\<rparr>]\<rparr>,
      length (cron_tasks s))"

definition cron_stop :: "nat \<Rightarrow> main_state \<Rightarrow> main_state" where
  "cron_stop h s =
     (if h < length (cron_tasks s)
      then s\<lparr>cron_tasks := (cron_tasks s)[h := (cron_tasks s ! h)\<lparr>cron_running := False\<rparr>]\<rparr>
      else s)"

text \<open>
  What one capture cycle finds outside: the clock, the ffmpeg run, the weather service, the
  overlay's surroundings, and the upload endpoint's answer to each request.
\<close>

record cycle_world =
  clock :: int
  spawned :: "js_exn + SpawnSyncReturns"
  metar_net :: metar_outcome
  overlay_env :: overlay_world
  put_net :: "nat \<Rightarrow> put_outcome"

text \<open>The condition \<open>metarResult.retryAfterSeconds\<close>: \<open>undefined\<close>, NaN and 0 are falsy.\<close>

fun retry_after_events :: "int option option \<Rightarrow> event list" where
  "retry_after_events (Some (Some n)) = (if n = 0 then [] else [Console (LogRetryAfter n)])"
| "retry_after_events _ = []"

text \<open>The condition \<^verbatim>\<open>metarResult.success && metarResult.data\<close>: the data when both are truthy.\<close>

definition usable_data :: "MetarResult \<Rightarrow> json option" where
  "usable_data metarResult =
     (case metar_data metarResult of
        None \<Rightarrow> None
      | Some data \<Rightarrow> if metar_success metarResult \<and> truthy data then Some data else None)"

text \<open>
  The block \<^verbatim>\<open>if (config.metar.enabled) { ... }\<close>: it leaves \<open>imageBuffer\<close> as it is or
  replaces it by the overlaid image. An exception of \<open>addTextOverlay\<close> is caught here; the
  call of \<open>formatMetarOverlay\<close> stands before that \<open>try\<close>, so its exception leaves the block.
\<close>

definition metar_overlay_step ::
  "Config \<Rightarrow> cycle_world \<Rightarrow> image \<Rightarrow> (js_exn + image) \<times> event list" where
  "metar_overlay_step config w imageBuffer =
     (if enabled (metar config) then
        (case fetchMetar (metar_net w) (icao_code (metar config)) of
           (Inl err, fetch_events) \<Rightarrow> (Inl err, fetch_events)
         | (Inr metarResult, fetch_events) \<Rightarrow>
             (case usable_data metarResult of
                Some data \<Rightarrow>
                  (case formatMetarOverlay data of
                     Inl err \<Rightarrow> (Inl err, fetch_events)
                   | Inr overlayText \<Rightarrow>
                       (case addTextOverlay (overlay_env w) imageBuffer overlayText
                               (metar config) of
                          (Inr overlaid, overlay_events) \<Rightarrow>
                            (Inr overlaid,
                             fetch_events @ [Console (LogMetarOverlay overlayText)]
                               @ overlay_events @ [Console (LogAddedOverlay overlaid)])
                        | (Inl err, overlay_events) \<Rightarrow>
                            (Inr imageBuffer,
                             fetch_events @ [Console (LogMetarOverlay overlayText)]
                               @ overlay_events @ [Console (LogOverlayFailed (err_text err))])))
              | None \<Rightarrow>
                  (Inr imageBuffer,
                   fetch_events @ [Console (LogMetarFailed (metar_error metarResult))]
                     @ retry_after_events (retryAfterSeconds metarResult))))
      else (Inr imageBuffer, []))"

definition upload_step ::
  "Config \<Rightarrow> cycle_world \<Rightarrow> int \<Rightarrow> bool \<Rightarrow> image \<Rightarrow> (js_exn + unit) \<times> event list" where
  "upload_step config w captureTime isDayTime imageBuffer =
     (let metadata = \<lparr>captureTimestamp = captureTime,
                       locationName = loc_name (location config),
                       meta_isDay = isDayTime\<rparr>
      in case uploadImage (api config) metadata imageBuffer (put_net w) of
           (Inl err, put_events) \<Rightarrow> (Inl err, put_events)
         | (Inr uploadResult, put_events) \<Rightarrow>
             (Inr (),
              put_events
                @ [if up_success uploadResult
                   then Console (LogUploadOk (map_option resp_id (responseBody uploadResult)))
                   else Console (LogUploadFailed (up_error uploadResult))]))"

text \<open>
  The \<open>try\<close> block of \<open>captureAndUpload\<close>: \<open>Inl\<close> when an exception leaves it, \<open>Inr\<close> when it
  ends normally or with the early \<open>return\<close>.
\<close>

definition captureAndUpload_try ::
  "Config \<Rightarrow> cycle_world \<Rightarrow> int \<Rightarrow> bool \<Rightarrow> (js_exn + unit) \<times> event list" where
  "captureAndUpload_try config w captureTime isDayTime =
     (case captureFrame (spawned w) (rtsp_url (camera config)) of
        (Inl err, capture_events) \<Rightarrow> (Inl err, capture_events)
      | (Inr captureResult, capture_events) \<Rightarrow>
          (case (cap_success captureResult, cap_image captureResult) of
             (True, Some captured) \<Rightarrow>
               (case metar_overlay_step config w captured of
                  (Inl err, overlay_events) \<Rightarrow>
                    (Inl err, capture_events @ [Console (LogCaptured captured)] @ overlay_events)
                | (Inr imageBuffer, overlay_events) \<Rightarrow>
                    (case upload_step config w captureTime isDayTime imageBuffer of
                       (r, upload_events) \<Rightarrow>
                         (r, capture_events @ [Console (LogCaptured captured)] @ overlay_events
                               @ upload_events)))
           | _ \<Rightarrow>
               (Inr (), capture_events @ [Console (LogCaptureFailed (cap_error captureResult))])))"

text \<open>
  The first lines of \<open>captureAndUpload\<close>: the guard and the flag set. \<open>None\<close> when the call
  is turned away; otherwise the state the cycle runs in, which is the state that any
  callback run while the cycle waits on I/O sees.
\<close>

definition enter_cycle :: "main_state \<Rightarrow> main_state option" where
  "enter_cycle s = (if isRunning s then None else Some (s\<lparr>isRunning := True\<rparr>))"

text \<open>
  \<open>captureAndUpload\<close>, run to the end: the guard, the flag set, the \<open>try\<close> block, the \<open>catch\<close>
  that logs, and the \<open>finally\<close> that clears the flag whichever way the block ended.
\<close>

definition captureAndUpload ::
  "suncalc \<Rightarrow> Config \<Rightarrow> cycle_world \<Rightarrow> main_state
     \<Rightarrow> main_state \<times> event list" where
  "captureAndUpload getTimes config w s =
     (case enter_cycle s of
        None \<Rightarrow> (s, [Console LogSkipBusy])
      | Some s1 \<Rightarrow>
        (let captureTime = clock w;
             isDayTime = isDay getTimes (Some captureTime) (location config);
             (r, events) = captureAndUpload_try config w captureTime isDayTime;
             caught = (case r of
                         Inl err \<Rightarrow> [Console (LogUnexpected (err_text err))]
                       | Inr u \<Rightarrow> [])
         in (s1\<lparr>isRunning := False\<rparr>,
             Console (LogStarting captureTime isDayTime) # events @ caught)))"

definition scheduleTransitionCheck :: "main_state \<Rightarrow> main_state" where
  "scheduleTransitionCheck s = fst (cron_schedule ''*/5 * * * *'' RunTransitionCheck s)"

definition scheduleNextCapture ::
  "suncalc \<Rightarrow> Config \<Rightarrow> int \<Rightarrow> main_state \<Rightarrow> main_state \<times> event list" where
  "scheduleNextCapture getTimes config now s =
     (let isDayTime = isDay getTimes (Some now) (location config);
          intervalMinutes = (if isDayTime then day_interval_minutes (schedule config)
                             else night_interval_minutes (schedule config));
          s1 = (case currentSchedule s of Some h \<Rightarrow> cron_stop h s | None \<Rightarrow> s);
          cronExpression = ''*/'' @ show_nat intervalMinutes @ '' * * * *'';
          (s2, h) = cron_schedule cronExpression RunCaptureAndUpload s1;
          s3 = s2\<lparr>currentSchedule := Some h\<rparr>
      in (scheduleTransitionCheck s3, [Console (LogScheduling intervalMinutes isDayTime)]))"

text \<open>The callback of the transition-check timer, run at the instant \<open>now\<close>.\<close>

definition transitionCheck ::
  "suncalc \<Rightarrow> Config \<Rightarrow> int \<Rightarrow> main_state \<Rightarrow> main_state \<times> event list" where
  "transitionCheck getTimes config now s =
     (if currentSchedule s \<noteq> None then scheduleNextCapture getTimes config now s else (s, []))"

text \<open>The tasks of one kind that are running.\<close>

definition running_tasks :: "cron_callback \<Rightarrow> main_state \<Rightarrow> cron_task list" where
  "running_tasks action s =
     filter (\<lambda>t. cron_action t = action \<and> cron_running t) (cron_tasks s)"


section \<open>node-cron: when a task runs\<close>

text \<open>
  The library is outside the repository. Of the five-field expressions only the form the
  program builds is given a meaning: in \<^verbatim>\<open>*/N * * * *\<close> the minute field is cron's step
  over the range 0 to 59, so the task runs at the minutes of every hour that \<open>N\<close> divides.
\<close>

definition digit_value :: "char \<Rightarrow> nat" where
  "digit_value c = length (takeWhile (\<lambda>d. d \<noteq> c) ''0123456789'')"

definition read_nat :: "string \<Rightarrow> nat" where
  "read_nat ds = foldl (\<lambda>n c. 10 * n + digit_value c) 0 ds"

text \<open>The step \<open>N\<close> of an expression of the form \<^verbatim>\<open>*/N * * * *\<close>.\<close>

definition cron_step :: "string \<Rightarrow> nat option" where
  "cron_step expression =
     (let field = takeWhile is_digit (drop 2 expression);
          rest = dropWhile is_digit (drop 2 expression)
      in if take 2 expression = ''*/'' \<and> field \<noteq> [] \<and> rest = '' * * * *''
         then Some (read_nat field) else None)"

text \<open>The minutes of the hour at which a task with the expression runs.\<close>

definition fire_minutes :: "string \<Rightarrow> nat list" where
  "fire_minutes expression =
     (case cron_step expression of
        None \<Rightarrow> []
      | Some n \<Rightarrow> if n = 0 then [] else filter (\<lambda>m. m mod n = 0) [0..<60])"

text \<open>
  The minutes from each run to the next, for runs at the given minutes of every hour; the
  last entry is the wait from the last run of an hour to the first of the next.
\<close>

fun run_gaps :: "nat list \<Rightarrow> nat list" where
  "run_gaps [] = []"
| "run_gaps (m # ms) = map (\<lambda>(a, b). b - a) (zip (m # ms) (ms @ [m + 60]))"

text \<open>The minutes from each run of a task to its next.\<close>

definition task_gaps :: "cron_task \<Rightarrow> nat list" where
  "task_gaps t = run_gaps (fire_minutes (cron_expression t))"


section \<open>Vocabulary of the properties\<close>

text \<open>The number of upload attempts in a run is the number of PUT requests it sent.\<close>

fun is_put :: "event \<Rightarrow> bool" where
  "is_put (HttpPut a m i) = True"
| "is_put _ = False"

definition attempts :: "event list \<Rightarrow> nat" where
  "attempts evs = length (filter is_put evs)"

fun is_console :: "event \<Rightarrow> bool" where
  "is_console (Console m) = True"
| "is_console _ = False"

fun sleep_ms :: "event \<Rightarrow> nat option" where
  "sleep_ms (Sleep ms) = Some ms"
| "sleep_ms _ = None"

text \<open>The backoff delays of a run, in order.\<close>

definition backoffs :: "event list \<Rightarrow> nat list" where
  "backoffs evs = List.map_filter sleep_ms evs"

text \<open>
  The retry policy's classes of outcome: a status in [400,500) other than 429 is terminal;
  429, a 5xx status, a network-level error and a timeout (both are rejections of \<open>fetch\<close>)
  are retryable.
\<close>

definition terminal_status :: "nat \<Rightarrow> bool" where
  "terminal_status st = (400 \<le> st \<and> st < 500 \<and> st \<noteq> 429)"

definition retryable_status :: "nat \<Rightarrow> bool" where
  "retryable_status st = (st = 429 \<or> (500 \<le> st \<and> st < 600))"

fun retryable_outcome :: "put_outcome \<Rightarrow> bool" where
  "retryable_outcome (FetchRejects err) = True"
| "retryable_outcome (FetchResponse st json text) = retryable_status st"

text \<open>
  The same classes, read off what \<open>attemptUpload\<close> hands to the loop: an exception (a
  network-level error), a failure without status (a timeout), or a failure with a
  retryable status.
\<close>

definition retryable_attempt :: "js_exn + UploadResult \<Rightarrow> bool" where
  "retryable_attempt attempted =
     (case attempted of
        Inl err \<Rightarrow> True
      | Inr result \<Rightarrow>
          \<not> up_success result
          \<and> (case statusCode result of None \<Rightarrow> True | Some st \<Rightarrow> retryable_status st))"

text \<open>How the \<open>try\<close>/\<open>catch\<close> of the \<open>k\<close>-th loop iteration ends.\<close>

definition attempt_end :: "ApiConfig \<Rightarrow> (nat \<Rightarrow> put_outcome) \<Rightarrow> nat \<Rightarrow> js_exn + try_end" where
  "attempt_end apiConfig net k = upload_try_catch (attemptUpload apiConfig (net k))"


text \<open>
  The step of the cycle an effect belongs to: 0 the capture, 1 the weather fetch, 2 the
  overlay, 3 the upload. Console output belongs to none.
\<close>

fun stage :: "event \<Rightarrow> nat option" where
  "stage (Console m) = None"
| "stage (SpawnFfmpeg u) = Some 0"
| "stage (HttpGetMetar i) = Some 1"
| "stage (SharpMetadata i) = Some 2"
| "stage (ReadFileSync p) = Some 2"
| "stage (HttpGetIcon u) = Some 2"
| "stage (SharpComposite i b g) = Some 2"
| "stage (HttpPut a m i) = Some 3"
| "stage (Sleep ms) = Some 3"

definition stages :: "event list \<Rightarrow> nat list" where
  "stages evs = List.map_filter stage evs"

text \<open>The image bodies of the PUT requests of a run, in order.\<close>

fun put_payload :: "event \<Rightarrow> image option" where
  "put_payload (HttpPut a m i) = Some i"
| "put_payload _ = None"

definition uploads :: "event list \<Rightarrow> image list" where
  "uploads evs = List.map_filter put_payload evs"

text \<open>The effects of a run other than console output.\<close>

definition io_events :: "event list \<Rightarrow> event list" where
  "io_events evs = filter (\<lambda>e. \<not> is_console e) evs"

text \<open>
  The image the capture step hands on: none when \<open>captureFrame\<close> throws or when the test
  \<^verbatim>\<open>!captureResult.success || !captureResult.image\<close> holds.
\<close>

definition captured_image :: "Config \<Rightarrow> cycle_world \<Rightarrow> image option" where
  "captured_image config w =
     (case fst (captureFrame (spawned w) (rtsp_url (camera config))) of
        Inl err \<Rightarrow> None
      | Inr captureResult \<Rightarrow>
          if cap_success captureResult then cap_image captureResult else None)"

text \<open>A configuration and surroundings to run the model on.\<close>

definition example_config :: Config where
  "example_config =
     \<lparr>camera = \<lparr>rtsp_url = ''rtsp://camera/stream''\<rparr>,
      location = \<lparr>loc_name = ''LFRK'', latitude = 49, longitude = 0, timezone = ''UTC''\<rparr>,
      schedule = \<lparr>day_interval_minutes = 5, night_interval_minutes = 60\<rparr>,
      api = \<lparr>api_url = ''https://sink'', api_key = ''k'', timeout_seconds = 30\<rparr>,
      metar = \<lparr>enabled = True, icao_code = ''LFRK'', overlay_pos = BottomLeft, font_size = 16,
               font_color = ''white'', background_color = ''black'', icon = None\<rparr>\<rparr>"

definition example_suncalc :: suncalc where
  "example_suncalc = (\<lambda>date lat lon. \<lparr>sunrise = Some 100, sunset = Some 200\<rparr>)"

text \<open>
  ffmpeg writes a frame, the weather service answers 204, the image library works, no
  icon file or URL can be reached, and the sink answers 201 at once.
\<close>

definition example_world :: cycle_world where
  "example_world =
     \<lparr>clock = 150,
      spawned = Inr \<lparr>spawn_error = None, spawn_status = Some 0, spawn_stderr = None,
                     spawn_stdout = Some ''jpg''\<rparr>,
      metar_net = MetarResponse 204 NoRetryAfter (Inr JNull),
      overlay_env = \<lparr>sharp_metadata = None,
                     read_file = (\<lambda>path. Inl (JsError ''Error'' ''ENOENT: no such file'')),
                     icon_fetch = (\<lambda>url. IconFetchRejects (JsError ''TypeError'' ''fetch failed'')),
                     sharp_toBuffer = None\<rparr>,
      put_net = (\<lambda>k. FetchResponse 201
                        (Inr \<lparr>resp_id = ''abc'', received_at = ''now'', size_bytes = 3\<rparr>)
                        (Inr []))\<rparr>"


text \<open>The capture timer for an interval, and the transition-check timer, as they are registered.\<close>

definition capture_task :: "nat \<Rightarrow> cron_task" where
  "capture_task intervalMinutes =
     \<lparr>cron_expression = ''*/'' @ show_nat intervalMinutes @ '' * * * *'',
      cron_action = RunCaptureAndUpload, cron_running = True\<rparr>"

definition transition_task :: cron_task where
  "transition_task =
     \<lparr>cron_expression = ''*/5 * * * *'', cron_action = RunTransitionCheck, cron_running = True\<rparr>"

text \<open>
  The state of the timers that the scheduler keeps up: the running capture timers are
  exactly the task \<open>currentSchedule\<close> holds (none before the first scheduling), and every
  running transition-check timer is the five-minute one.
\<close>

definition timers_ok :: "main_state \<Rightarrow> bool" where
  "timers_ok s =
     ((case currentSchedule s of
         None \<Rightarrow> running_tasks RunCaptureAndUpload s = []
       | Some h \<Rightarrow>
           h < length (cron_tasks s)
           \<and> running_tasks RunCaptureAndUpload s = [cron_tasks s ! h])
      \<and> list_all (\<lambda>t. t = transition_task) (running_tasks RunTransitionCheck s))"

text \<open>An icon block that names a local file.\<close>

definition example_icon :: IconConfig where
  "example_icon =
     \<lparr>icon_url = None, icon_path = Some ''/etc/webcam/icon.svg'', icon_svg = None,
      icon_size = 24, icon_position = IconLeft\<rparr>"

text \<open>A weather record as the service may send it: no \<open>rawOb\<close>.\<close>

definition bare_record :: json where
  "bare_record = JObj [(''icaoId'', JStr ''LFRK''), (''fltCat'', JStr ''VFR'')]"

text \<open>A schedule whose intervals do not divide the hour.\<close>

definition uneven_config :: Config where
  "uneven_config =
     example_config\<lparr>schedule := \<lparr>day_interval_minutes = 45, night_interval_minutes = 90\<rparr>\<rparr>"


section \<open>Properties of sun.ts\<close>

text \<open>
  C8. For every valid instant and every location, \<open>isDay\<close> holds exactly when the sunrise and
  sunset computed for that same instant and location are valid and sunrise \<open>\<le>\<close> date \<open><\<close> sunset.
  An instant equal to the sunrise (of a day whose sunrise precedes its sunset) is day, an
  instant equal to the sunset is night, and an invalid date is never day.
\<close>

theorem isDay_iff_sunrise_le_date_lt_sunset:
  "(isDay getTimes (Some d) loc \<longleftrightarrow>
      (\<exists>sr ss. getSunTimes getTimes (Some d) loc = \<lparr>sunrise = Some sr, sunset = Some ss\<rparr>
                \<and> sr \<le> d \<and> d < ss))
   \<and> (getSunTimes getTimes (Some d) loc = \<lparr>sunrise = Some d, sunset = Some ss\<rparr> \<and> d < ss
        \<longrightarrow> isDay getTimes (Some d) loc)
   \<and> (sunset (getSunTimes getTimes (Some d) loc) = Some d
        \<longrightarrow> \<not> isDay getTimes (Some d) loc)
   \<and> \<not> isDay getTimes None loc"
proof -
  obtain a b where t: "getSunTimes getTimes (Some d) loc = \<lparr>sunrise = a, sunset = b\<rparr>"
    by (cases "getSunTimes getTimes (Some d) loc") simp
  have day: "isDay getTimes (Some d) loc = (date_ge (Some d) a \<and> date_lt (Some d) b)"
    using t by (simp add: isDay_def Let_def)
  have night: "\<not> isDay getTimes None loc"
    by (simp add: isDay_def Let_def)
  show ?thesis
    unfolding day t using night by (cases a; cases b) auto
qed

theorem isDay_iff_sunrise_le_date_lt_sunset_witness:
  "isDay (\<lambda>date lat lon. \<lparr>sunrise = Some 100, sunset = Some 200\<rparr>) (Some 100)
      \<lparr>loc_name = ''LFRK'', latitude = 49, longitude = 0, timezone = ''UTC''\<rparr>
   \<and> \<not> isDay (\<lambda>date lat lon. \<lparr>sunrise = Some 100, sunset = Some 200\<rparr>) (Some 200)
      \<lparr>loc_name = ''LFRK'', latitude = 49, longitude = 0, timezone = ''UTC''\<rparr>"
  using isDay_iff_sunrise_le_date_lt_sunset
          [of "\<lambda>date lat lon. \<lparr>sunrise = Some 100, sunset = Some 200\<rparr>" 100
              "\<lparr>loc_name = ''LFRK'', latitude = 49, longitude = 0, timezone = ''UTC''\<rparr>" 200]
        isDay_iff_sunrise_le_date_lt_sunset
          [of "\<lambda>date lat lon. \<lparr>sunrise = Some 100, sunset = Some 200\<rparr>" 200
              "\<lparr>loc_name = ''LFRK'', latitude = 49, longitude = 0, timezone = ''UTC''\<rparr>" 0]
  by (simp add: getSunTimes_def)


section \<open>Properties of upload.ts\<close>

subsection \<open>The loop, iteration by iteration\<close>

lemma show_nat_3: "show_nat 3 = ''3''" by code_simp
lemma show_nat_400: "show_nat 400 = ''400''" by code_simp
lemma show_nat_500: "show_nat 500 = ''500''" by code_simp

lemma upload_loop_done:
  "MAX_RETRIES < attempt \<Longrightarrow>
   upload_loop apiConfig metadata imageBuffer net attempt lastError =
     (Inr \<lparr>up_success = False, statusCode = None, responseBody = None,
           up_error = Some (''All 3 upload attempts failed. Last error: '' @ show_opt lastError)\<rparr>, [])"
  by (subst upload_loop.simps) (simp add: MAX_RETRIES_def show_nat_3)

lemma upload_loop_returns:
  "attempt \<le> MAX_RETRIES \<Longrightarrow>
   upload_try_catch (attemptUpload apiConfig (net attempt)) = Inr (Returns result) \<Longrightarrow>
   upload_loop apiConfig metadata imageBuffer net attempt lastError =
     (Inr result, [HttpPut apiConfig metadata imageBuffer])"
  by (subst upload_loop.simps) simp

lemma upload_loop_falls:
  "attempt \<le> MAX_RETRIES \<Longrightarrow>
   upload_try_catch (attemptUpload apiConfig (net attempt)) = Inr (FallsThrough e) \<Longrightarrow>
   upload_loop apiConfig metadata imageBuffer net attempt lastError =
     (fst (upload_loop apiConfig metadata imageBuffer net (Suc attempt) e),
      HttpPut apiConfig metadata imageBuffer # backoff_events attempt
        @ snd (upload_loop apiConfig metadata imageBuffer net (Suc attempt) e))"
  by (subst upload_loop.simps) (simp add: case_prod_beta)

lemma upload_try_catch_cases:
  "(\<exists>r. upload_try_catch a = Inr (Returns r)) \<or> (\<exists>e. upload_try_catch a = Inr (FallsThrough e))"
  by (auto simp: upload_try_catch_def upload_try_def split: sum.splits try_end.splits)

lemma retryable_outcome_attempt:
  "retryable_outcome out \<Longrightarrow> retryable_attempt (attemptUpload apiConfig out)"
  by (cases out; cases "attemptUpload apiConfig out")
     (auto simp: retryable_attempt_def retryable_status_def
           split: sum.splits if_splits elim!: attemptUpload_catch.elims)

lemma retryable_falls:
  "retryable_attempt attempted \<Longrightarrow> \<exists>e. upload_try_catch attempted = Inr (FallsThrough e)"
  by (cases attempted)
     (auto simp: upload_try_catch_def upload_try_def retryable_attempt_def retryable_status_def
           split: option.splits)

lemma attemptUpload_success_iff:
  "attemptUpload apiConfig out = Inr result \<Longrightarrow>
   up_success result \<longleftrightarrow> statusCode result = Some 201"
  by (cases out) (auto split: sum.splits if_splits elim!: attemptUpload_catch.elims)

text \<open>The loop of at most three iterations, written out.\<close>

lemma attempt_end_cases:
  "(\<exists>r. attempt_end apiConfig net k = Inr (Returns r))
   \<or> (\<exists>e. attempt_end apiConfig net k = Inr (FallsThrough e))"
  unfolding attempt_end_def by (rule upload_try_catch_cases)

lemma uploadImage_1_returns:
  assumes "attempt_end apiConfig net 1 = Inr (Returns r)"
  shows "uploadImage apiConfig metadata imageBuffer net =
           (Inr r, [HttpPut apiConfig metadata imageBuffer])"
  using assms upload_loop_returns [of 1 apiConfig net r metadata imageBuffer None]
  by (simp add: uploadImage_def MAX_RETRIES_def attempt_end_def)

lemma uploadImage_1_falls:
  assumes "attempt_end apiConfig net 1 = Inr (FallsThrough e1)"
  shows "uploadImage apiConfig metadata imageBuffer net =
           (fst (upload_loop apiConfig metadata imageBuffer net 2 e1),
            [HttpPut apiConfig metadata imageBuffer, Console (LogUploadRetry 1 1000), Sleep 1000]
              @ snd (upload_loop apiConfig metadata imageBuffer net 2 e1))"
  using assms upload_loop_falls [of 1 apiConfig net e1 metadata imageBuffer None]
  by (simp add: uploadImage_def MAX_RETRIES_def backoff_events_def INITIAL_BACKOFF_MS_def
        numeral_2_eq_2 attempt_end_def)

lemma upload_loop_2_returns:
  assumes "attempt_end apiConfig net 2 = Inr (Returns r)"
  shows "upload_loop apiConfig metadata imageBuffer net 2 e =
           (Inr r, [HttpPut apiConfig metadata imageBuffer])"
  using assms upload_loop_returns [of 2 apiConfig net r metadata imageBuffer e]
  by (simp add: MAX_RETRIES_def attempt_end_def)

lemma upload_loop_2_falls:
  assumes "attempt_end apiConfig net 2 = Inr (FallsThrough e2)"
  shows "upload_loop apiConfig metadata imageBuffer net 2 e =
           (fst (upload_loop apiConfig metadata imageBuffer net 3 e2),
            [HttpPut apiConfig metadata imageBuffer, Console (LogUploadRetry 2 2000), Sleep 2000]
              @ snd (upload_loop apiConfig metadata imageBuffer net 3 e2))"
  using assms upload_loop_falls [of 2 apiConfig net e2 metadata imageBuffer e]
  by (simp add: MAX_RETRIES_def backoff_events_def INITIAL_BACKOFF_MS_def
        numeral_3_eq_3 numeral_2_eq_2 attempt_end_def)

lemma upload_loop_3_returns:
  assumes "attempt_end apiConfig net 3 = Inr (Returns r)"
  shows "upload_loop apiConfig metadata imageBuffer net 3 e =
           (Inr r, [HttpPut apiConfig metadata imageBuffer])"
  using assms upload_loop_returns [of 3 apiConfig net r metadata imageBuffer e]
  by (simp add: MAX_RETRIES_def attempt_end_def)

lemma upload_loop_3_falls:
  assumes "attempt_end apiConfig net 3 = Inr (FallsThrough e3)"
  shows "upload_loop apiConfig metadata imageBuffer net 3 e =
           (Inr \<lparr>up_success = False, statusCode = None, responseBody = None,
                 up_error = Some (''All 3 upload attempts failed. Last error: '' @ show_opt e3)\<rparr>,
            [HttpPut apiConfig metadata imageBuffer])"
  using assms upload_loop_falls [of 3 apiConfig net e3 metadata imageBuffer e]
    upload_loop_done [of "Suc 3" apiConfig metadata imageBuffer net e3]
  by (simp add: MAX_RETRIES_def backoff_events_def attempt_end_def)

lemma retryable_attempt_end:
  "retryable_attempt (attemptUpload apiConfig (net k)) \<Longrightarrow>
   \<exists>e. attempt_end apiConfig net k = Inr (FallsThrough e)"
  unfolding attempt_end_def by (rule retryable_falls)

lemma terminal_attempt_end:
  "attemptUpload apiConfig (net k) = Inr result \<Longrightarrow> statusCode result = Some st \<Longrightarrow>
   terminal_status st \<Longrightarrow> attempt_end apiConfig net k = Inr (Returns result)"
  by (auto simp: attempt_end_def upload_try_catch_def upload_try_def terminal_status_def)

lemma success_attempt_end:
  "attemptUpload apiConfig (net k) = Inr result \<Longrightarrow> up_success result \<Longrightarrow>
   attempt_end apiConfig net k = Inr (Returns result)"
  by (simp add: attempt_end_def upload_try_catch_def upload_try_def)

lemma client_error_attempt_end:
  "net k = FetchResponse st json (Inr errorText) \<Longrightarrow> terminal_status st \<Longrightarrow>
   attempt_end apiConfig net k =
     Inr (Returns \<lparr>up_success = False, statusCode = Some st, responseBody = None,
                   up_error = Some (''HTTP '' @ show_nat st @ '': '' @ errorText)\<rparr>)"
  by (auto simp: attempt_end_def upload_try_catch_def upload_try_def terminal_status_def)

lemma created_attempt_end:
  "net k = FetchResponse 201 (Inr body) text \<Longrightarrow>
   attempt_end apiConfig net k =
     Inr (Returns \<lparr>up_success = True, statusCode = Some 201, responseBody = Some body,
                   up_error = None\<rparr>)"
  by (simp add: attempt_end_def upload_try_catch_def upload_try_def)

lemma server_error_attempt_end:
  "net k = FetchResponse 500 json (Inr errorText) \<Longrightarrow>
   attempt_end apiConfig net k = Inr (FallsThrough (Some (''HTTP 500: '' @ errorText)))"
  unfolding attempt_end_def
  by (simp add: upload_try_catch_def upload_try_def show_nat_500)

text \<open>Terminal client error at attempt n, after retryable ones.\<close>

lemma terminal_after_retries:
  assumes n: "1 \<le> n" "n \<le> MAX_RETRIES"
    and before: "\<forall>k. 1 \<le> k \<and> k < n \<longrightarrow> retryable_attempt (attemptUpload apiConfig (net k))"
    and ends: "attempt_end apiConfig net n = Inr (Returns r)"
  shows "fst (uploadImage apiConfig metadata imageBuffer net) = Inr r
         \<and> attempts (snd (uploadImage apiConfig metadata imageBuffer net)) = n"
proof -
  from n have "n = 1 \<or> n = 2 \<or> n = 3" by (auto simp: MAX_RETRIES_def)
  then show ?thesis
  proof (elim disjE)
    assume "n = 1"
    with ends show ?thesis by (simp add: uploadImage_1_returns attempts_def)
  next
    assume n2: "n = 2"
    with before have "retryable_attempt (attemptUpload apiConfig (net 1))" by simp
    then obtain e1 where "attempt_end apiConfig net 1 = Inr (FallsThrough e1)"
      using retryable_attempt_end [of apiConfig net 1] by auto
    with ends n2 show ?thesis
      by (simp add: uploadImage_1_falls upload_loop_2_returns attempts_def)
  next
    assume n3: "n = 3"
    with before have "retryable_attempt (attemptUpload apiConfig (net 1))"
      "retryable_attempt (attemptUpload apiConfig (net 2))" by simp_all
    then obtain e1 e2 where "attempt_end apiConfig net 1 = Inr (FallsThrough e1)"
      "attempt_end apiConfig net 2 = Inr (FallsThrough e2)"
      using retryable_attempt_end [of apiConfig net 1] retryable_attempt_end [of apiConfig net 2]
      by auto
    with ends n3 show ?thesis
      by (simp add: uploadImage_1_falls upload_loop_2_falls upload_loop_3_returns attempts_def)
  qed
qed

lemma exhausted_after_retries:
  assumes "attempt_end apiConfig net 1 = Inr (FallsThrough e1)"
    "attempt_end apiConfig net 2 = Inr (FallsThrough e2)"
    "attempt_end apiConfig net 3 = Inr (FallsThrough e3)"
  shows "uploadImage apiConfig metadata imageBuffer net =
     (Inr \<lparr>up_success = False, statusCode = None, responseBody = None,
           up_error = Some (''All 3 upload attempts failed. Last error: '' @ show_opt e3)\<rparr>,
      [HttpPut apiConfig metadata imageBuffer, Console (LogUploadRetry 1 1000), Sleep 1000,
       HttpPut apiConfig metadata imageBuffer, Console (LogUploadRetry 2 2000), Sleep 2000,
       HttpPut apiConfig metadata imageBuffer])"
  using assms by (simp add: uploadImage_1_falls upload_loop_2_falls upload_loop_3_falls)

lemma uploadImage_cases:
  fixes apiConfig metadata imageBuffer net
  defines "put \<equiv> HttpPut apiConfig metadata imageBuffer"
  shows
  "(\<exists>r. attempt_end apiConfig net 1 = Inr (Returns r)
        \<and> uploadImage apiConfig metadata imageBuffer net = (Inr r, [put]))
   \<or> (\<exists>e1 r. attempt_end apiConfig net 1 = Inr (FallsThrough e1)
        \<and> attempt_end apiConfig net 2 = Inr (Returns r)
        \<and> uploadImage apiConfig metadata imageBuffer net =
            (Inr r, [put, Console (LogUploadRetry 1 1000), Sleep 1000, put]))
   \<or> (\<exists>e1 e2 r. attempt_end apiConfig net 1 = Inr (FallsThrough e1)
        \<and> attempt_end apiConfig net 2 = Inr (FallsThrough e2)
        \<and> attempt_end apiConfig net 3 = Inr (Returns r)
        \<and> uploadImage apiConfig metadata imageBuffer net =
            (Inr r, [put, Console (LogUploadRetry 1 1000), Sleep 1000,
                     put, Console (LogUploadRetry 2 2000), Sleep 2000, put]))
   \<or> (\<exists>e1 e2 e3. attempt_end apiConfig net 1 = Inr (FallsThrough e1)
        \<and> attempt_end apiConfig net 2 = Inr (FallsThrough e2)
        \<and> attempt_end apiConfig net 3 = Inr (FallsThrough e3)
        \<and> uploadImage apiConfig metadata imageBuffer net =
            (Inr \<lparr>up_success = False, statusCode = None, responseBody = None,
                  up_error = Some (''All 3 upload attempts failed. Last error: '' @ show_opt e3)\<rparr>,
             [put, Console (LogUploadRetry 1 1000), Sleep 1000,
              put, Console (LogUploadRetry 2 2000), Sleep 2000, put]))"
proof -
  consider (r1) r where "attempt_end apiConfig net 1 = Inr (Returns r)"
    | (f1) e1 where "attempt_end apiConfig net 1 = Inr (FallsThrough e1)"
    using attempt_end_cases [of apiConfig net 1] by blast
  then show ?thesis
  proof cases
    case r1
    then show ?thesis by (simp add: uploadImage_1_returns put_def)
  next
    case f1
    consider (r2) r where "attempt_end apiConfig net 2 = Inr (Returns r)"
      | (f2) e2 where "attempt_end apiConfig net 2 = Inr (FallsThrough e2)"
      using attempt_end_cases [of apiConfig net 2] by blast
    then show ?thesis
    proof cases
      case r2
      with f1 show ?thesis by (simp add: uploadImage_1_falls upload_loop_2_returns put_def)
    next
      case f2
      consider (r3) r where "attempt_end apiConfig net 3 = Inr (Returns r)"
        | (f3) e3 where "attempt_end apiConfig net 3 = Inr (FallsThrough e3)"
        using attempt_end_cases [of apiConfig net 3] by blast
      then show ?thesis
      proof cases
        case r3
        with f1 f2 show ?thesis
          by (simp add: uploadImage_1_falls upload_loop_2_falls upload_loop_3_returns put_def)
      next
        case f3
        with f1 f2 show ?thesis
          by (simp add: uploadImage_1_falls upload_loop_2_falls upload_loop_3_falls put_def)
      qed
    qed
  qed
qed

lemma thrown_attempt_end:
  "attemptUpload apiConfig (net k) = Inl err \<Longrightarrow>
   attempt_end apiConfig net k = Inr (FallsThrough (Some (err_text err)))"
  by (simp add: attempt_end_def upload_try_catch_def upload_try_def)


subsection \<open>Attempt counts\<close>

text \<open>
  C2. \<open>uploadImage\<close> makes the attempts the retry policy dictates, with \<open>MAX_RETRIES = 3\<close>.
  A response with status 429 or 5xx, a network-level error and a timeout all give a
  retryable attempt. When the attempts before the \<open>n\<close>-th are retryable and the \<open>n\<close>-th
  gives a result whose status is in [400,500) and not 429, that failure is returned after
  exactly \<open>n\<close> attempts, with no retry; when the \<open>n\<close>-th succeeds, the success is returned
  after exactly \<open>n\<close> attempts; when all three are retryable, exactly three attempts are made
  and the result is the aggregated failure. For the responses 500, 500, 201 there are three
  attempts and a success; for 500, 500, 500 three attempts and the aggregated failure with
  the last error; for 400 one attempt.
\<close>

theorem uploadImage_attempt_counts:
  "MAX_RETRIES = 3
   \<and> (\<forall>out. retryable_outcome out \<longrightarrow> retryable_attempt (attemptUpload apiConfig out))
   \<and> (\<forall>n result st.
        1 \<le> n \<and> n \<le> MAX_RETRIES
        \<and> (\<forall>k. 1 \<le> k \<and> k < n \<longrightarrow> retryable_attempt (attemptUpload apiConfig (net k)))
        \<and> attemptUpload apiConfig (net n) = Inr result
        \<and> statusCode result = Some st \<and> terminal_status st
        \<longrightarrow> fst (uploadImage apiConfig metadata imageBuffer net) = Inr result
            \<and> \<not> up_success result
            \<and> attempts (snd (uploadImage apiConfig metadata imageBuffer net)) = n)
   \<and> (\<forall>n result.
        1 \<le> n \<and> n \<le> MAX_RETRIES
        \<and> (\<forall>k. 1 \<le> k \<and> k < n \<longrightarrow> retryable_attempt (attemptUpload apiConfig (net k)))
        \<and> attemptUpload apiConfig (net n) = Inr result \<and> up_success result
        \<longrightarrow> fst (uploadImage apiConfig metadata imageBuffer net) = Inr result
            \<and> attempts (snd (uploadImage apiConfig metadata imageBuffer net)) = n)
   \<and> ((\<forall>k. 1 \<le> k \<and> k \<le> MAX_RETRIES \<longrightarrow> retryable_attempt (attemptUpload apiConfig (net k)))
        \<longrightarrow> (\<exists>e. fst (uploadImage apiConfig metadata imageBuffer net) =
                   Inr \<lparr>up_success = False, statusCode = None, responseBody = None,
                        up_error = Some (''All 3 upload attempts failed. Last error: '' @ e)\<rparr>)
            \<and> attempts (snd (uploadImage apiConfig metadata imageBuffer net)) = MAX_RETRIES)
   \<and> (\<forall>j1 t1 j2 t2 body t3.
        net 1 = FetchResponse 500 j1 (Inr t1) \<and> net 2 = FetchResponse 500 j2 (Inr t2)
        \<and> net 3 = FetchResponse 201 (Inr body) t3
        \<longrightarrow> fst (uploadImage apiConfig metadata imageBuffer net) =
              Inr \<lparr>up_success = True, statusCode = Some 201, responseBody = Some body,
                   up_error = None\<rparr>
            \<and> attempts (snd (uploadImage apiConfig metadata imageBuffer net)) = 3)
   \<and> (\<forall>j1 t1 j2 t2 j3 t3.
        net 1 = FetchResponse 500 j1 (Inr t1) \<and> net 2 = FetchResponse 500 j2 (Inr t2)
        \<and> net 3 = FetchResponse 500 j3 (Inr t3)
        \<longrightarrow> fst (uploadImage apiConfig metadata imageBuffer net) =
              Inr \<lparr>up_success = False, statusCode = None, responseBody = None,
                   up_error = Some (''All 3 upload attempts failed. Last error: HTTP 500: '' @ t3)\<rparr>
            \<and> attempts (snd (uploadImage apiConfig metadata imageBuffer net)) = 3)
   \<and> (\<forall>j1 t1.
        net 1 = FetchResponse 400 j1 (Inr t1)
        \<longrightarrow> fst (uploadImage apiConfig metadata imageBuffer net) =
              Inr \<lparr>up_success = False, statusCode = Some 400, responseBody = None,
                   up_error = Some (''HTTP 400: '' @ t1)\<rparr>
            \<and> attempts (snd (uploadImage apiConfig metadata imageBuffer net)) = 1)"
  (is "?max \<and> ?classes \<and> ?terminal \<and> ?created \<and> ?exhausted \<and> ?seq1 \<and> ?seq2 \<and> ?seq3")
proof -
  have max: ?max by (simp add: MAX_RETRIES_def)
  have classes: ?classes by (simp add: retryable_outcome_attempt)
  have terminal: ?terminal
  proof (intro allI impI, elim conjE)
    fix n result st
    assume n: "1 \<le> n" "n \<le> MAX_RETRIES"
      and before: "\<forall>k. 1 \<le> k \<and> k < n \<longrightarrow> retryable_attempt (attemptUpload apiConfig (net k))"
      and last: "attemptUpload apiConfig (net n) = Inr result" "statusCode result = Some st"
        "terminal_status st"
    have failed: "\<not> up_success result"
      using attemptUpload_success_iff [OF last(1)] last(2,3) by (simp add: terminal_status_def)
    show "fst (uploadImage apiConfig metadata imageBuffer net) = Inr result
            \<and> \<not> up_success result
            \<and> attempts (snd (uploadImage apiConfig metadata imageBuffer net)) = n"
      using terminal_after_retries [OF n before terminal_attempt_end [where net = net, OF last]]
        failed by simp
  qed
  have created: ?created
  proof (intro allI impI, elim conjE)
    fix n result
    assume n: "1 \<le> n" "n \<le> MAX_RETRIES"
      and before: "\<forall>k. 1 \<le> k \<and> k < n \<longrightarrow> retryable_attempt (attemptUpload apiConfig (net k))"
      and last: "attemptUpload apiConfig (net n) = Inr result" "up_success result"
    show "fst (uploadImage apiConfig metadata imageBuffer net) = Inr result
            \<and> attempts (snd (uploadImage apiConfig metadata imageBuffer net)) = n"
      by (rule terminal_after_retries [OF n before success_attempt_end [where net = net, OF last]])
  qed
  have exhausted: ?exhausted
  proof (intro impI)
    assume a: "\<forall>k. 1 \<le> k \<and> k \<le> MAX_RETRIES \<longrightarrow> retryable_attempt (attemptUpload apiConfig (net k))"
    then have "retryable_attempt (attemptUpload apiConfig (net 1))"
      "retryable_attempt (attemptUpload apiConfig (net 2))"
      "retryable_attempt (attemptUpload apiConfig (net 3))"
      by (simp_all add: MAX_RETRIES_def)
    then obtain e1 e2 e3 where "attempt_end apiConfig net 1 = Inr (FallsThrough e1)"
      "attempt_end apiConfig net 2 = Inr (FallsThrough e2)"
      "attempt_end apiConfig net 3 = Inr (FallsThrough e3)"
      using retryable_attempt_end [of apiConfig net 1] retryable_attempt_end [of apiConfig net 2]
        retryable_attempt_end [of apiConfig net 3]
      by auto
    then show "(\<exists>e. fst (uploadImage apiConfig metadata imageBuffer net) =
                   Inr \<lparr>up_success = False, statusCode = None, responseBody = None,
                        up_error = Some (''All 3 upload attempts failed. Last error: '' @ e)\<rparr>)
            \<and> attempts (snd (uploadImage apiConfig metadata imageBuffer net)) = MAX_RETRIES"
      by (simp add: exhausted_after_retries attempts_def MAX_RETRIES_def)
  qed
  have seq1: ?seq1
  proof (intro allI impI, elim conjE)
    fix j1 t1 j2 t2 body t3
    assume a: "net 1 = FetchResponse 500 j1 (Inr t1)" "net 2 = FetchResponse 500 j2 (Inr t2)"
      "net 3 = FetchResponse 201 (Inr body) t3"
    show "fst (uploadImage apiConfig metadata imageBuffer net) =
              Inr \<lparr>up_success = True, statusCode = Some 201, responseBody = Some body,
                   up_error = None\<rparr>
            \<and> attempts (snd (uploadImage apiConfig metadata imageBuffer net)) = 3"
      by (simp add: uploadImage_1_falls [OF server_error_attempt_end [where net = net, OF a(1)]]
            upload_loop_2_falls [OF server_error_attempt_end [where net = net, OF a(2)]]
            upload_loop_3_returns [OF created_attempt_end [where net = net, OF a(3)]] attempts_def)
  qed
  have seq2: ?seq2
  proof (intro allI impI, elim conjE)
    fix j1 t1 j2 t2 j3 t3
    assume a: "net 1 = FetchResponse 500 j1 (Inr t1)" "net 2 = FetchResponse 500 j2 (Inr t2)"
      "net 3 = FetchResponse 500 j3 (Inr t3)"
    show "fst (uploadImage apiConfig metadata imageBuffer net) =
              Inr \<lparr>up_success = False, statusCode = None, responseBody = None,
                   up_error = Some (''All 3 upload attempts failed. Last error: HTTP 500: '' @ t3)\<rparr>
            \<and> attempts (snd (uploadImage apiConfig metadata imageBuffer net)) = 3"
      by (simp add: exhausted_after_retries [OF server_error_attempt_end [where net = net, OF a(1)]
              server_error_attempt_end [where net = net, OF a(2)]
              server_error_attempt_end [where net = net, OF a(3)]] attempts_def)
  qed
  have seq3: ?seq3
  proof (intro allI impI)
    fix j1 t1
    assume a: "net 1 = FetchResponse 400 j1 (Inr t1)"
    have t: "terminal_status 400" by (simp add: terminal_status_def)
    show "fst (uploadImage apiConfig metadata imageBuffer net) =
              Inr \<lparr>up_success = False, statusCode = Some 400, responseBody = None,
                   up_error = Some (''HTTP 400: '' @ t1)\<rparr>
            \<and> attempts (snd (uploadImage apiConfig metadata imageBuffer net)) = 1"
      by (simp add: uploadImage_1_returns [OF client_error_attempt_end [where net = net, OF a t]]
            attempts_def show_nat_400)
  qed
  from max classes terminal created exhausted seq1 seq2 seq3 show ?thesis by blast
qed

theorem uploadImage_attempt_counts_witness:
  "fst (uploadImage \<lparr>api_url = ''https://sink'', api_key = ''k'', timeout_seconds = 30\<rparr>
          \<lparr>captureTimestamp = 0, locationName = ''LFRK'', meta_isDay = True\<rparr> (Frame ''jpg'')
          (\<lambda>k. if k = 1 then FetchRejects (JsError ''TypeError'' ''fetch failed'')
               else FetchResponse 404 (Inl (JsThrown ''unread'')) (Inr ''gone''))) =
     Inr \<lparr>up_success = False, statusCode = Some 404, responseBody = None,
          up_error = Some ''HTTP 404: gone''\<rparr>
   \<and> attempts (snd (uploadImage \<lparr>api_url = ''https://sink'', api_key = ''k'', timeout_seconds = 30\<rparr>
          \<lparr>captureTimestamp = 0, locationName = ''LFRK'', meta_isDay = True\<rparr> (Frame ''jpg'')
          (\<lambda>k. if k = 1 then FetchRejects (JsError ''TypeError'' ''fetch failed'')
               else FetchResponse 404 (Inl (JsThrown ''unread'')) (Inr ''gone'')))) = 2"
proof -
  let ?net = "\<lambda>k::nat. if k = 1 then FetchRejects (JsError ''TypeError'' ''fetch failed'')
               else FetchResponse 404 (Inl (JsThrown ''unread'')) (Inr ''gone'')"
  let ?api = "\<lparr>api_url = ''https://sink'', api_key = ''k'', timeout_seconds = 30\<rparr>"
  have before: "\<forall>k. 1 \<le> k \<and> k < 2 \<longrightarrow> retryable_attempt (attemptUpload ?api (?net k))"
  proof (intro allI impI)
    fix k :: nat
    assume "1 \<le> k \<and> k < 2"
    then have "k = 1" by arith
    then show "retryable_attempt (attemptUpload ?api (?net k))"
      by (simp add: retryable_attempt_def)
  qed
  have shown: "show_nat 404 = ''404''" by code_simp
  note t = uploadImage_attempt_counts
             [of ?api ?net
                 "\<lparr>captureTimestamp = 0, locationName = ''LFRK'', meta_isDay = True\<rparr>"
                 "Frame ''jpg''",
              THEN conjunct2, THEN conjunct2, THEN conjunct1, rule_format,
              of 2 "\<lparr>up_success = False, statusCode = Some 404, responseBody = None,
                      up_error = Some ''HTTP 404: gone''\<rparr>" 404]
  show ?thesis
    using t before by (simp add: MAX_RETRIES_def terminal_status_def shown)
qed

subsection \<open>Backoff\<close>

text \<open>
  C9. With \<open>INITIAL_BACKOFF_MS = 1000\<close>, the delays slept in a run of \<open>uploadImage\<close> are
  \<open>INITIAL_BACKOFF_MS * 2 ^ (n - 1)\<close> for each attempt \<open>n\<close> that is followed by another one,
  in order. Console output apart, a run is a prefix of: attempt, sleep 1000, attempt, sleep
  2000, attempt, ending with an attempt; so nothing is slept before the first attempt or
  after the last, 1000 ms are slept before the second and 2000 ms before the third.
\<close>

theorem uploadImage_backoff_schedule:
  "INITIAL_BACKOFF_MS = 1000
   \<and> 1 \<le> attempts (snd (uploadImage apiConfig metadata imageBuffer net))
   \<and> attempts (snd (uploadImage apiConfig metadata imageBuffer net)) \<le> MAX_RETRIES
   \<and> backoffs (snd (uploadImage apiConfig metadata imageBuffer net)) =
       map (\<lambda>n. INITIAL_BACKOFF_MS * 2 ^ (n - 1))
         [1 ..< attempts (snd (uploadImage apiConfig metadata imageBuffer net))]
   \<and> filter (\<lambda>e. \<not> is_console e) (snd (uploadImage apiConfig metadata imageBuffer net)) =
       take (2 * attempts (snd (uploadImage apiConfig metadata imageBuffer net)) - 1)
         [HttpPut apiConfig metadata imageBuffer, Sleep 1000,
          HttpPut apiConfig metadata imageBuffer, Sleep 2000,
          HttpPut apiConfig metadata imageBuffer]"
  using uploadImage_cases [of apiConfig net metadata imageBuffer]
  by (elim disjE exE conjE)
     (simp_all add: attempts_def backoffs_def INITIAL_BACKOFF_MS_def
        MAX_RETRIES_def upt_rec numeral_2_eq_2)


theorem uploadImage_backoff_schedule_witness:
  "backoffs (snd (uploadImage \<lparr>api_url = ''https://sink'', api_key = ''k'', timeout_seconds = 30\<rparr>
          \<lparr>captureTimestamp = 0, locationName = ''LFRK'', meta_isDay = True\<rparr> (Frame ''jpg'')
          (\<lambda>k. FetchResponse 503 (Inl (JsThrown ''unread'')) (Inr ''busy'')))) = [1000, 2000]"
proof -
  let ?net = "\<lambda>k::nat. FetchResponse 503 (Inl (JsThrown ''unread'')) (Inr ''busy'')"
  let ?api = "\<lparr>api_url = ''https://sink'', api_key = ''k'', timeout_seconds = 30\<rparr>"
  let ?md = "\<lparr>captureTimestamp = 0, locationName = ''LFRK'', meta_isDay = True\<rparr>"
  have "\<And>k. \<exists>e. attempt_end ?api ?net k = Inr (FallsThrough e)"
    by (rule retryable_attempt_end) (simp add: retryable_attempt_def retryable_status_def)
  then obtain e1 e2 e3 where "attempt_end ?api ?net 1 = Inr (FallsThrough e1)"
    "attempt_end ?api ?net 2 = Inr (FallsThrough e2)"
    "attempt_end ?api ?net 3 = Inr (FallsThrough e3)"
    by blast
  then have three: "attempts (snd (uploadImage ?api ?md (Frame ''jpg'') ?net)) = 3"
    by (simp add: exhausted_after_retries attempts_def)
  show ?thesis
    using uploadImage_backoff_schedule [of ?api ?md "Frame ''jpg''" ?net] three
    by (simp add: INITIAL_BACKOFF_MS_def upt_rec numeral_2_eq_2)
qed

subsection \<open>No exception leaves uploadImage\<close>

text \<open>
  C10. For every behaviour of the network, the promise of \<open>uploadImage\<close> resolves to an
  \<open>UploadResult\<close>; it never rejects. A network-level error that \<open>attemptUpload\<close> rethrows, like
  any exception of an attempt, is caught in the loop and recorded as the last error: the
  attempt ends by falling through to the backoff, another attempt follows unless it was the
  last one, and when the third attempt throws, the aggregated failure carries its message.
\<close>

theorem uploadImage_never_rejects:
  "(\<exists>r. fst (uploadImage apiConfig metadata imageBuffer net) = Inr r)
   \<and> (\<forall>nm msg. nm \<noteq> ''AbortError''
        \<longrightarrow> attemptUpload apiConfig (FetchRejects (JsError nm msg)) = Inl (JsError nm msg))
   \<and> (\<forall>k err. attemptUpload apiConfig (net k) = Inl err
        \<longrightarrow> upload_try_catch (attemptUpload apiConfig (net k)) =
              Inr (FallsThrough (Some (err_text err))))
   \<and> (\<forall>k err. attemptUpload apiConfig (net k) = Inl err \<and> 1 \<le> k \<and> k < MAX_RETRIES
          \<and> k \<le> attempts (snd (uploadImage apiConfig metadata imageBuffer net))
        \<longrightarrow> k < attempts (snd (uploadImage apiConfig metadata imageBuffer net)))
   \<and> (\<forall>err. attemptUpload apiConfig (net MAX_RETRIES) = Inl err
          \<and> attempts (snd (uploadImage apiConfig metadata imageBuffer net)) = MAX_RETRIES
        \<longrightarrow> fst (uploadImage apiConfig metadata imageBuffer net) =
              Inr \<lparr>up_success = False, statusCode = None, responseBody = None,
                   up_error = Some (''All 3 upload attempts failed. Last error: ''
                                    @ err_text err)\<rparr>)"
  (is "?settles \<and> ?rethrown \<and> ?recorded \<and> ?retried \<and> ?last")
proof -
  have settles: ?settles
    using uploadImage_cases [of apiConfig net metadata imageBuffer] by auto
  have rethrown: ?rethrown by simp
  have recorded: ?recorded
    by (simp add: upload_try_catch_def upload_try_def)
  have retried: ?retried
  proof (intro allI impI, elim conjE)
    fix k err
    assume thrown: "attemptUpload apiConfig (net k) = Inl err"
      and k: "1 \<le> k" "k < MAX_RETRIES"
      and made: "k \<le> attempts (snd (uploadImage apiConfig metadata imageBuffer net))"
    from k have "k = 1 \<or> k = 2" by (auto simp: MAX_RETRIES_def)
    then show "k < attempts (snd (uploadImage apiConfig metadata imageBuffer net))"
      using uploadImage_cases [of apiConfig net metadata imageBuffer]
        thrown_attempt_end [where net = net, OF thrown] made
      by (elim disjE exE conjE) (simp_all add: attempts_def)
  qed
  have last: ?last
  proof (intro allI impI, elim conjE)
    fix err
    assume thrown: "attemptUpload apiConfig (net MAX_RETRIES) = Inl err"
      and made: "attempts (snd (uploadImage apiConfig metadata imageBuffer net)) = MAX_RETRIES"
    have "attempt_end apiConfig net 3 = Inr (FallsThrough (Some (err_text err)))"
      using thrown_attempt_end [of apiConfig net 3 err] thrown by (simp add: MAX_RETRIES_def)
    then show "fst (uploadImage apiConfig metadata imageBuffer net) =
              Inr \<lparr>up_success = False, statusCode = None, responseBody = None,
                   up_error = Some (''All 3 upload attempts failed. Last error: ''
                                    @ err_text err)\<rparr>"
      using uploadImage_cases [of apiConfig net metadata imageBuffer] made
      by (elim disjE exE conjE) (simp_all add: attempts_def MAX_RETRIES_def)
  qed
  from settles rethrown recorded retried last show ?thesis by blast
qed


theorem uploadImage_never_rejects_witness:
  "fst (uploadImage \<lparr>api_url = ''https://sink'', api_key = ''k'', timeout_seconds = 30\<rparr>
          \<lparr>captureTimestamp = 0, locationName = ''LFRK'', meta_isDay = True\<rparr> (Frame ''jpg'')
          (\<lambda>k. FetchRejects (JsError ''TypeError'' ''fetch failed''))) =
     Inr \<lparr>up_success = False, statusCode = None, responseBody = None,
          up_error = Some ''All 3 upload attempts failed. Last error: fetch failed''\<rparr>"
proof -
  let ?net = "\<lambda>k::nat. FetchRejects (JsError ''TypeError'' ''fetch failed'')"
  let ?api = "\<lparr>api_url = ''https://sink'', api_key = ''k'', timeout_seconds = 30\<rparr>"
  let ?md = "\<lparr>captureTimestamp = 0, locationName = ''LFRK'', meta_isDay = True\<rparr>"
  have "\<And>k. \<exists>e. attempt_end ?api ?net k = Inr (FallsThrough e)"
    by (rule retryable_attempt_end) (simp add: retryable_attempt_def)
  then obtain e1 e2 e3 where "attempt_end ?api ?net 1 = Inr (FallsThrough e1)"
    "attempt_end ?api ?net 2 = Inr (FallsThrough e2)"
    "attempt_end ?api ?net 3 = Inr (FallsThrough e3)"
    by blast
  then have three: "attempts (snd (uploadImage ?api ?md (Frame ''jpg'') ?net)) = MAX_RETRIES"
    by (simp add: exhausted_after_retries attempts_def MAX_RETRIES_def)
  have thrown: "attemptUpload ?api (?net MAX_RETRIES) = Inl (JsError ''TypeError'' ''fetch failed'')"
    by simp
  note t = uploadImage_never_rejects
             [of ?api ?md "Frame ''jpg''" ?net, THEN conjunct2, THEN conjunct2, THEN conjunct2,
              THEN conjunct2, rule_format, of "JsError ''TypeError'' ''fetch failed''"]
  show ?thesis
    using t thrown three by simp
qed


section \<open>Properties of the capture cycle\<close>

subsection \<open>The ways through a cycle\<close>

lemma stages_simps [simp]:
  "stages [] = []"
  "stages (e # evs) = (case stage e of None \<Rightarrow> stages evs | Some k \<Rightarrow> k # stages evs)"
  "stages (xs @ ys) = stages xs @ stages ys"
  by (simp_all add: stages_def List.map_filter_def split: option.splits)

lemma uploads_simps [simp]:
  "uploads [] = []"
  "uploads (e # evs) = (case put_payload e of None \<Rightarrow> uploads evs | Some k \<Rightarrow> k # uploads evs)"
  "uploads (xs @ ys) = uploads xs @ uploads ys"
  by (simp_all add: uploads_def List.map_filter_def split: option.splits)

lemma io_events_simps [simp]:
  "io_events [] = []"
  "io_events (e # evs) = (if is_console e then io_events evs else e # io_events evs)"
  "io_events (xs @ ys) = io_events xs @ io_events ys"
  by (simp_all add: io_events_def)

lemma uploadImage_settles: "\<exists>r. fst (uploadImage apiConfig metadata imageBuffer net) = Inr r"
  using uploadImage_cases [of apiConfig net metadata imageBuffer] by auto

lemma uploadImage_stages:
  "\<forall>k \<in> set (stages (snd (uploadImage apiConfig metadata imageBuffer net))). k = 3"
  using uploadImage_cases [of apiConfig net metadata imageBuffer]
  by (elim disjE exE conjE) simp_all

lemma uploadImage_uploads:
  "uploads (snd (uploadImage apiConfig metadata imageBuffer net)) \<noteq> []
   \<and> set (uploads (snd (uploadImage apiConfig metadata imageBuffer net))) = {imageBuffer}"
  using uploadImage_cases [of apiConfig net metadata imageBuffer]
  by (elim disjE exE conjE) simp_all

lemma captureFrame_events: "snd (captureFrame sp url) = [SpawnFfmpeg url]"
  by (simp add: captureFrame_def split: sum.splits)

lemma fetchMetar_settles: "\<exists>r. fetchMetar net icao = (Inr r, [HttpGetMetar icao])"
  by (simp add: fetchMetar_def split: sum.splits)

lemma loadIcon_stages: "\<forall>k \<in> set (stages (snd (loadIcon w cfg))). k = 2"
  by (auto simp: loadIcon_def split: option.splits sum.splits icon_outcome.splits if_splits)

lemma loadIcon_uploads: "uploads (snd (loadIcon w cfg)) = []"
  by (auto simp: loadIcon_def split: option.splits sum.splits icon_outcome.splits if_splits)

lemma addTextOverlay_stages:
  "\<forall>k \<in> set (stages (snd (addTextOverlay w img text cfg))). k = 2"
  using loadIcon_stages [of w "icon cfg"]
  by (auto simp: addTextOverlay_def Let_def split: option.splits sum.splits prod.splits)

lemma addTextOverlay_uploads: "uploads (snd (addTextOverlay w img text cfg)) = []"
  using loadIcon_uploads [of w "icon cfg"]
  by (auto simp: addTextOverlay_def Let_def split: option.splits sum.splits prod.splits)


lemma retry_after_events_console [simp]:
  "stages (retry_after_events ra) = []" "uploads (retry_after_events ra) = []"
  "io_events (retry_after_events ra) = []"
  by (cases ra rule: retry_after_events.cases; simp)+

lemma addTextOverlay_begins:
  "SharpMetadata img \<in> set (snd (addTextOverlay w img text cfg))"
  by (auto simp: addTextOverlay_def Let_def split: option.splits sum.splits prod.splits)

lemma addTextOverlay_result:
  assumes "addTextOverlay w img text cfg = (Inr overlaid, evs)"
  shows "\<exists>svg. overlaid = Composite img svg (positionToGravity (overlay_pos cfg))
           \<and> text_content svg = escapeXml text
           \<and> SharpComposite img svg (positionToGravity (overlay_pos cfg)) \<in> set evs"
  using assms
  by (auto simp: addTextOverlay_def Let_def split: option.splits sum.splits prod.splits)

text \<open>The ways through the METAR block.\<close>

lemma metar_step_disabled:
  "\<not> enabled (metar config) \<Longrightarrow> metar_overlay_step config w imageBuffer = (Inr imageBuffer, [])"
  by (simp add: metar_overlay_step_def)

lemma fetchMetar_value:
  "fst (fetchMetar net icao) = Inr mr \<Longrightarrow> fetchMetar net icao = (Inr mr, [HttpGetMetar icao])"
  using fetchMetar_settles [of net icao] by auto

lemma metar_step_no_data:
  assumes "enabled (metar config)"
    "fst (fetchMetar (metar_net w) (icao_code (metar config))) = Inr mr"
    "usable_data mr = None"
  shows "metar_overlay_step config w imageBuffer =
           (Inr imageBuffer,
            [HttpGetMetar (icao_code (metar config)), Console (LogMetarFailed (metar_error mr))]
              @ retry_after_events (retryAfterSeconds mr))"
  using assms(1,3) fetchMetar_value [OF assms(2)] by (simp add: metar_overlay_step_def)

lemma metar_step_format_throws:
  assumes "enabled (metar config)"
    "fst (fetchMetar (metar_net w) (icao_code (metar config))) = Inr mr"
    "usable_data mr = Some data" "formatMetarOverlay data = Inl err"
  shows "metar_overlay_step config w imageBuffer =
           (Inl err, [HttpGetMetar (icao_code (metar config))])"
  using assms(1,3,4) fetchMetar_value [OF assms(2)] by (simp add: metar_overlay_step_def)

lemma metar_step_overlaid:
  assumes "enabled (metar config)"
    "fst (fetchMetar (metar_net w) (icao_code (metar config))) = Inr mr"
    "usable_data mr = Some data" "formatMetarOverlay data = Inr overlayText"
    "addTextOverlay (overlay_env w) imageBuffer overlayText (metar config) = (Inr overlaid, evs)"
  shows "metar_overlay_step config w imageBuffer =
           (Inr overlaid,
            [HttpGetMetar (icao_code (metar config)), Console (LogMetarOverlay overlayText)] @ evs
              @ [Console (LogAddedOverlay overlaid)])"
  using assms(1,3,4,5) fetchMetar_value [OF assms(2)] by (simp add: metar_overlay_step_def)

lemma metar_step_overlay_throws:
  assumes "enabled (metar config)"
    "fst (fetchMetar (metar_net w) (icao_code (metar config))) = Inr mr"
    "usable_data mr = Some data" "formatMetarOverlay data = Inr overlayText"
    "addTextOverlay (overlay_env w) imageBuffer overlayText (metar config) = (Inl err, evs)"
  shows "metar_overlay_step config w imageBuffer =
           (Inr imageBuffer,
            [HttpGetMetar (icao_code (metar config)), Console (LogMetarOverlay overlayText)] @ evs
              @ [Console (LogOverlayFailed (err_text err))])"
  using assms(1,3,4,5) fetchMetar_value [OF assms(2)] by (simp add: metar_overlay_step_def)

lemma metar_overlay_step_cases:
  "(\<not> enabled (metar config)
      \<and> metar_overlay_step config w imageBuffer = (Inr imageBuffer, []))
   \<or> (\<exists>mr. enabled (metar config) \<and> usable_data mr = None
        \<and> metar_overlay_step config w imageBuffer =
            (Inr imageBuffer,
             [HttpGetMetar (icao_code (metar config)), Console (LogMetarFailed (metar_error mr))]
               @ retry_after_events (retryAfterSeconds mr)))
   \<or> (\<exists>err. enabled (metar config)
        \<and> metar_overlay_step config w imageBuffer =
            (Inl err, [HttpGetMetar (icao_code (metar config))]))
   \<or> (\<exists>overlayText overlaid evs. enabled (metar config)
        \<and> addTextOverlay (overlay_env w) imageBuffer overlayText (metar config) =
            (Inr overlaid, evs)
        \<and> metar_overlay_step config w imageBuffer =
            (Inr overlaid,
             [HttpGetMetar (icao_code (metar config)), Console (LogMetarOverlay overlayText)]
               @ evs @ [Console (LogAddedOverlay overlaid)]))
   \<or> (\<exists>overlayText err evs. enabled (metar config)
        \<and> addTextOverlay (overlay_env w) imageBuffer overlayText (metar config) = (Inl err, evs)
        \<and> metar_overlay_step config w imageBuffer =
            (Inr imageBuffer,
             [HttpGetMetar (icao_code (metar config)), Console (LogMetarOverlay overlayText)]
               @ evs @ [Console (LogOverlayFailed (err_text err))]))"
proof (cases "enabled (metar config)")
  case False
  then show ?thesis by (simp add: metar_step_disabled)
next
  case True
  obtain mr where f: "fst (fetchMetar (metar_net w) (icao_code (metar config))) = Inr mr"
    using fetchMetar_settles [of "metar_net w" "icao_code (metar config)"] by auto
  show ?thesis
  proof (cases "usable_data mr")
    case None
    from metar_step_no_data [OF True f None] True None show ?thesis by blast
  next
    case (Some data)
    show ?thesis
    proof (cases "formatMetarOverlay data")
      case (Inl err)
      from metar_step_format_throws [OF True f Some Inl] True show ?thesis by blast
    next
      case (Inr overlayText)
      obtain r evs where a:
        "addTextOverlay (overlay_env w) imageBuffer overlayText (metar config) = (r, evs)"
        by (cases "addTextOverlay (overlay_env w) imageBuffer overlayText (metar config)")
      show ?thesis
      proof (cases r)
        case (Inl err)
        from metar_step_overlay_throws [OF True f Some Inr a [unfolded Inl]] True a Inl
        show ?thesis by blast
      next
        case overlaid: (Inr overlaid)
        from metar_step_overlaid [OF True f Some Inr a [unfolded overlaid]] True a overlaid
        show ?thesis by blast
      qed
    qed
  qed
qed

lemma metar_overlay_step_uploads:
  "uploads (snd (metar_overlay_step config w imageBuffer)) = []"
  using metar_overlay_step_cases [of config w imageBuffer]
    addTextOverlay_uploads [of "overlay_env w" imageBuffer _ "metar config"]
  by (elim disjE exE conjE) (simp_all, (metis snd_conv)+)

lemma metar_overlay_step_stages:
  "stages (snd (metar_overlay_step config w imageBuffer)) = []
   \<or> (\<exists>ks. stages (snd (metar_overlay_step config w imageBuffer)) = 1 # ks
            \<and> (\<forall>k \<in> set ks. k = 2))"
  using metar_overlay_step_cases [of config w imageBuffer]
    addTextOverlay_stages [of "overlay_env w" imageBuffer _ "metar config"]
  by (elim disjE exE conjE) (simp_all, (metis snd_conv)+)

lemma enter_leave:
  "\<not> isRunning s \<Longrightarrow> enter_cycle s = Some (s\<lparr>isRunning := True\<rparr>)
     \<and> (s\<lparr>isRunning := True\<rparr>)\<lparr>isRunning := False\<rparr> = s"
  by (simp add: enter_cycle_def)

text \<open>The ways through a cycle that is let in.\<close>

lemma cycle_spawn_throws:
  assumes "\<not> isRunning s" "spawned w = Inl err"
  shows "captureAndUpload getTimes config w s =
          (s, [Console (LogStarting (clock w) (isDay getTimes (Some (clock w)) (location config))),
               SpawnFfmpeg (rtsp_url (camera config)),
               Console (LogUnexpected (err_text err))])"
  using assms(2) enter_leave [OF assms(1)]
  by (simp add: captureAndUpload_def captureAndUpload_try_def captureFrame_def Let_def)

lemma cycle_capture_fails:
  assumes "\<not> isRunning s" "spawned w = Inr result" "captured_image config w = None"
  shows "captureAndUpload getTimes config w s =
          (s, [Console (LogStarting (clock w) (isDay getTimes (Some (clock w)) (location config))),
               SpawnFfmpeg (rtsp_url (camera config)),
               Console (LogCaptureFailed (cap_error (captureFrame_result result)))])"
  using assms(2,3) enter_leave [OF assms(1)]
  by (auto simp: captureAndUpload_def captureAndUpload_try_def captureFrame_def Let_def
        captured_image_def split: option.splits bool.splits if_splits)

lemma captured_image_Some:
  assumes "captured_image config w = Some captured"
  shows "\<exists>result. captureFrame (spawned w) (rtsp_url (camera config)) =
                    (Inr result, [SpawnFfmpeg (rtsp_url (camera config))])
                  \<and> cap_success result \<and> cap_image result = Some captured"
  using assms
  by (cases "spawned w") (auto simp: captured_image_def captureFrame_def split: if_splits)

lemma cycle_block_throws:
  assumes "\<not> isRunning s" "captured_image config w = Some captured"
    "metar_overlay_step config w captured = (Inl err, overlay_events)"
  shows "captureAndUpload getTimes config w s =
          (s, [Console (LogStarting (clock w) (isDay getTimes (Some (clock w)) (location config))),
               SpawnFfmpeg (rtsp_url (camera config)), Console (LogCaptured captured)]
              @ overlay_events @ [Console (LogUnexpected (err_text err))])"
  using captured_image_Some [OF assms(2)] assms(3) enter_leave [OF assms(1)]
  by (auto simp: captureAndUpload_def captureAndUpload_try_def Let_def)

lemma cycle_uploads:
  assumes "\<not> isRunning s" "captured_image config w = Some captured"
    "metar_overlay_step config w captured = (Inr imageBuffer, overlay_events)"
  shows "\<exists>uploadResult put_events.
           uploadImage (api config)
             \<lparr>captureTimestamp = clock w, locationName = loc_name (location config),
              meta_isDay = isDay getTimes (Some (clock w)) (location config)\<rparr>
             imageBuffer (put_net w) = (Inr uploadResult, put_events)
           \<and> captureAndUpload getTimes config w s =
               (s, [Console (LogStarting (clock w)
                               (isDay getTimes (Some (clock w)) (location config))),
                    SpawnFfmpeg (rtsp_url (camera config)), Console (LogCaptured captured)]
                   @ overlay_events @ put_events
                   @ [if up_success uploadResult
                      then Console (LogUploadOk (map_option resp_id (responseBody uploadResult)))
                      else Console (LogUploadFailed (up_error uploadResult))])"
proof -
  obtain uploadResult put_events where
    u: "uploadImage (api config)
           \<lparr>captureTimestamp = clock w, locationName = loc_name (location config),
            meta_isDay = isDay getTimes (Some (clock w)) (location config)\<rparr>
           imageBuffer (put_net w) = (Inr uploadResult, put_events)"
    using uploadImage_settles [of "api config" _ imageBuffer "put_net w"]
    by (metis prod.collapse)
  from captured_image_Some [OF assms(2)] assms(3) u enter_leave [OF assms(1)]
  have "captureAndUpload getTimes config w s =
               (s, [Console (LogStarting (clock w)
                               (isDay getTimes (Some (clock w)) (location config))),
                    SpawnFfmpeg (rtsp_url (camera config)), Console (LogCaptured captured)]
                   @ overlay_events @ put_events
                   @ [if up_success uploadResult
                      then Console (LogUploadOk (map_option resp_id (responseBody uploadResult)))
                      else Console (LogUploadFailed (up_error uploadResult))])"
    by (auto simp: captureAndUpload_def captureAndUpload_try_def Let_def upload_step_def)
  with u show ?thesis by blast
qed

lemma sorted_constant: "\<forall>k \<in> set ks. k = (c::nat) \<Longrightarrow> sorted ks"
  by (induction ks) auto

lemma count_constant: "\<forall>k \<in> set ks. k = (c::nat) \<Longrightarrow> c \<noteq> d \<Longrightarrow> count_list ks d = 0"
  by (induction ks) auto

lemma cycle_stages:
  assumes m: "ms = [] \<or> (\<exists>ms'. ms = 1 # ms' \<and> (\<forall>k \<in> set ms'. k = 2))"
    and u: "\<forall>k \<in> set us. k = (3::nat)"
  shows "sorted (0 # ms @ us) \<and> count_list (0 # ms @ us) 0 = 1"
proof -
  have su: "sorted us" and cu: "count_list us 0 = 0"
    using u sorted_constant [of us 3] count_constant [of us 3 0] by simp_all
  from m show ?thesis
  proof
    assume "ms = []"
    with su cu show ?thesis by simp
  next
    assume "\<exists>ms'. ms = 1 # ms' \<and> (\<forall>k \<in> set ms'. k = 2)"
    then obtain ms' where ms: "ms = 1 # ms'" and two: "\<forall>k \<in> set ms'. k = 2" by blast
    have "sorted ms'" "count_list ms' 0 = 0"
      using two sorted_constant [of ms' 2] count_constant [of ms' 2 0] by simp_all
    with ms two su cu u show ?thesis by (fastforce simp: sorted_append)
  qed
qed

lemma cycle_stages_no_upload:
  assumes "ms = [] \<or> (\<exists>ms'. ms = 1 # ms' \<and> (\<forall>k \<in> set ms'. k = (2::nat)))"
  shows "sorted (0 # ms) \<and> count_list (0 # ms) 0 = 1"
  using cycle_stages [OF assms, of "[]"] by simp

lemma captureAndUpload_cases:
  assumes idle: "\<not> isRunning s"
  shows
  "(\<exists>err. spawned w = Inl err
      \<and> captureAndUpload getTimes config w s =
          (s, [Console (LogStarting (clock w) (isDay getTimes (Some (clock w)) (location config))),
               SpawnFfmpeg (rtsp_url (camera config)),
               Console (LogUnexpected (err_text err))]))
   \<or> (\<exists>result. spawned w = Inr result \<and> captured_image config w = None
      \<and> captureAndUpload getTimes config w s =
          (s, [Console (LogStarting (clock w) (isDay getTimes (Some (clock w)) (location config))),
               SpawnFfmpeg (rtsp_url (camera config)),
               Console (LogCaptureFailed (cap_error (captureFrame_result result)))]))
   \<or> (\<exists>captured err overlay_events.
        captured_image config w = Some captured
      \<and> metar_overlay_step config w captured = (Inl err, overlay_events)
      \<and> captureAndUpload getTimes config w s =
          (s, [Console (LogStarting (clock w) (isDay getTimes (Some (clock w)) (location config))),
               SpawnFfmpeg (rtsp_url (camera config)), Console (LogCaptured captured)]
              @ overlay_events @ [Console (LogUnexpected (err_text err))]))
   \<or> (\<exists>captured imageBuffer overlay_events uploadResult put_events.
        captured_image config w = Some captured
      \<and> metar_overlay_step config w captured = (Inr imageBuffer, overlay_events)
      \<and> uploadImage (api config)
           \<lparr>captureTimestamp = clock w, locationName = loc_name (location config),
            meta_isDay = isDay getTimes (Some (clock w)) (location config)\<rparr>
           imageBuffer (put_net w) = (Inr uploadResult, put_events)
      \<and> captureAndUpload getTimes config w s =
          (s, [Console (LogStarting (clock w) (isDay getTimes (Some (clock w)) (location config))),
               SpawnFfmpeg (rtsp_url (camera config)), Console (LogCaptured captured)]
              @ overlay_events @ put_events
              @ [if up_success uploadResult
                 then Console (LogUploadOk (map_option resp_id (responseBody uploadResult)))
                 else Console (LogUploadFailed (up_error uploadResult))]))"
proof (cases "spawned w")
  case (Inl err)
  from cycle_spawn_throws [OF idle Inl] Inl show ?thesis by blast
next
  case (Inr result)
  show ?thesis
  proof (cases "captured_image config w")
    case None
    from cycle_capture_fails [OF idle Inr None] Inr None show ?thesis by blast
  next
    case (Some captured)
    obtain r overlay_events where m: "metar_overlay_step config w captured = (r, overlay_events)"
      by (cases "metar_overlay_step config w captured")
    show ?thesis
    proof (cases r)
      case (Inl err)
      from cycle_block_throws [OF idle Some m [unfolded Inl]] Some m Inl show ?thesis by blast
    next
      case image: (Inr imageBuffer)
      from cycle_uploads [OF idle Some m [unfolded image]] Some m image show ?thesis by blast
    qed
  qed
qed

lemma captureAndUpload_state: "fst (captureAndUpload getTimes config w s) = s"
proof (cases "isRunning s")
  case True
  then show ?thesis by (simp add: captureAndUpload_def enter_cycle_def)
next
  case False
  from captureAndUpload_cases [OF False, of w getTimes config]
  show ?thesis by (elim disjE exE conjE) simp_all
qed

lemma captureAndUpload_stages:
  "sorted (stages (snd (captureAndUpload getTimes config w s)))
   \<and> (\<not> isRunning s \<longrightarrow>
        count_list (stages (snd (captureAndUpload getTimes config w s))) 0 = 1)"
proof (cases "isRunning s")
  case True
  then show ?thesis by (simp add: captureAndUpload_def enter_cycle_def)
next
  case False
  from captureAndUpload_cases [OF False, of w getTimes config]
  show ?thesis
  proof (elim disjE exE conjE)
    fix captured err overlay_events
    assume m: "metar_overlay_step config w captured = (Inl err, overlay_events)"
      and c: "captureAndUpload getTimes config w s =
          (s, [Console (LogStarting (clock w) (isDay getTimes (Some (clock w)) (location config))),
               SpawnFfmpeg (rtsp_url (camera config)), Console (LogCaptured captured)]
              @ overlay_events @ [Console (LogUnexpected (err_text err))])"
    have ms: "stages overlay_events = []
              \<or> (\<exists>ms'. stages overlay_events = 1 # ms' \<and> (\<forall>k \<in> set ms'. k = 2))"
      using metar_overlay_step_stages [of config w captured] m by simp
    have "stages (snd (captureAndUpload getTimes config w s)) = 0 # stages overlay_events"
      using c by simp
    with cycle_stages_no_upload [OF ms] False show ?thesis by simp
  next
    fix captured imageBuffer overlay_events uploadResult put_events
    assume m: "metar_overlay_step config w captured = (Inr imageBuffer, overlay_events)"
      and u: "uploadImage (api config)
           \<lparr>captureTimestamp = clock w, locationName = loc_name (location config),
            meta_isDay = isDay getTimes (Some (clock w)) (location config)\<rparr>
           imageBuffer (put_net w) = (Inr uploadResult, put_events)"
      and c: "captureAndUpload getTimes config w s =
          (s, [Console (LogStarting (clock w) (isDay getTimes (Some (clock w)) (location config))),
               SpawnFfmpeg (rtsp_url (camera config)), Console (LogCaptured captured)]
              @ overlay_events @ put_events
              @ [if up_success uploadResult
                 then Console (LogUploadOk (map_option resp_id (responseBody uploadResult)))
                 else Console (LogUploadFailed (up_error uploadResult))])"
    have ms: "stages overlay_events = []
              \<or> (\<exists>ms'. stages overlay_events = 1 # ms' \<and> (\<forall>k \<in> set ms'. k = 2))"
      using metar_overlay_step_stages [of config w captured] m by simp
    have us: "\<forall>k \<in> set (stages put_events). k = 3"
      using uploadImage_stages [of "api config" _ imageBuffer "put_net w"] u by (metis snd_conv)
    have "stages (snd (captureAndUpload getTimes config w s)) =
            0 # stages overlay_events @ stages put_events"
      using c by simp
    with cycle_stages [OF ms us] False show ?thesis by simp
  qed simp_all
qed

text \<open>What a cycle with a captured image sends, by the way the METAR block ends.\<close>

lemma cycle_sends:
  assumes "\<not> isRunning s" "captured_image config w = Some captured"
    "metar_overlay_step config w captured = (Inr imageBuffer, overlay_events)"
  shows "uploads (snd (captureAndUpload getTimes config w s)) \<noteq> []"
    and "set (uploads (snd (captureAndUpload getTimes config w s))) = {imageBuffer}"
    and "set overlay_events \<subseteq> set (snd (captureAndUpload getTimes config w s))"
    and "set (stages (snd (captureAndUpload getTimes config w s))) \<subseteq>
           {0, 3} \<union> set (stages overlay_events)"
proof -
  from cycle_uploads [OF assms, of getTimes] obtain uploadResult put_events where
    u: "uploadImage (api config)
             \<lparr>captureTimestamp = clock w, locationName = loc_name (location config),
              meta_isDay = isDay getTimes (Some (clock w)) (location config)\<rparr>
             imageBuffer (put_net w) = (Inr uploadResult, put_events)"
    and c: "captureAndUpload getTimes config w s =
               (s, [Console (LogStarting (clock w)
                               (isDay getTimes (Some (clock w)) (location config))),
                    SpawnFfmpeg (rtsp_url (camera config)), Console (LogCaptured captured)]
                   @ overlay_events @ put_events
                   @ [if up_success uploadResult
                      then Console (LogUploadOk (map_option resp_id (responseBody uploadResult)))
                      else Console (LogUploadFailed (up_error uploadResult))])"
    by blast
  have o: "uploads overlay_events = []"
    using metar_overlay_step_uploads [of config w captured] assms(3) by simp
  have p: "uploads put_events \<noteq> [] \<and> set (uploads put_events) = {imageBuffer}"
    using uploadImage_uploads [of "api config" _ imageBuffer "put_net w"] u by (metis snd_conv)
  have us: "\<forall>k \<in> set (stages put_events). k = 3"
    using uploadImage_stages [of "api config" _ imageBuffer "put_net w"] u by (metis snd_conv)
  have up: "uploads (snd (captureAndUpload getTimes config w s)) = uploads put_events"
    using c o by simp
  show "uploads (snd (captureAndUpload getTimes config w s)) \<noteq> []" using up p by simp
  show "set (uploads (snd (captureAndUpload getTimes config w s))) = {imageBuffer}"
    using up p by simp
  show "set overlay_events \<subseteq> set (snd (captureAndUpload getTimes config w s))"
    using c by auto
  show "set (stages (snd (captureAndUpload getTimes config w s))) \<subseteq>
           {0, 3} \<union> set (stages overlay_events)"
    using c us by auto
qed

lemma capture_failure_io:
  assumes "\<not> isRunning s" "captured_image config w = None"
  shows "io_events (snd (captureAndUpload getTimes config w s)) =
           [SpawnFfmpeg (rtsp_url (camera config))]"
  using captureAndUpload_cases [OF assms(1), of w getTimes config] assms(2)
  by (elim disjE exE conjE) simp_all

lemma metar_requested:
  assumes "\<not> isRunning s" "captured_image config w = Some captured" "enabled (metar config)"
  shows "HttpGetMetar (icao_code (metar config)) \<in> set (snd (captureAndUpload getTimes config w s))"
proof -
  have g: "HttpGetMetar (icao_code (metar config))
             \<in> set (snd (metar_overlay_step config w captured))"
    using metar_overlay_step_cases [of config w captured] assms(3)
    by (elim disjE exE conjE) simp_all
  from captureAndUpload_cases [OF assms(1), of w getTimes config] assms(2) g
  show ?thesis by (elim disjE exE conjE) (auto simp: captured_image_def captureFrame_def)
qed

subsection \<open>The busy flag\<close>

text \<open>
  C1. A call of \<open>captureAndUpload\<close> starts a cycle only when the busy flag is false, and the
  cycle runs with the flag set. Whatever the outside world does (a failed capture, a
  failed weather fetch, an exception of the overlay or of the formatting of its text,
  uploads exhausted, an exception thrown by the capture), the flag is false again when the
  call is over: the call hands back the module state it found. When the capture throws, the
  exception is caught and logged and the call ends in the same way.
\<close>

theorem captureAndUpload_releases_busy_flag:
  "(\<forall>s1. enter_cycle s = Some s1 \<longrightarrow> \<not> isRunning s \<and> isRunning s1)
   \<and> (\<not> isRunning s \<longrightarrow>
        \<not> isRunning (fst (captureAndUpload getTimes config w s)))
   \<and> fst (captureAndUpload getTimes config w s) = s
   \<and> (\<forall>err. \<not> isRunning s \<and> spawned w = Inl err \<longrightarrow>
        captureAndUpload getTimes config w s =
          (s, [Console (LogStarting (clock w) (isDay getTimes (Some (clock w)) (location config))),
               SpawnFfmpeg (rtsp_url (camera config)),
               Console (LogUnexpected (err_text err))]))"
  (is "?entered \<and> ?released \<and> ?same \<and> ?exception")
proof -
  have entered: ?entered by (auto simp: enter_cycle_def)
  have same: ?same by (rule captureAndUpload_state)
  have released: ?released using same by simp
  have exception: ?exception
  proof (intro allI impI, elim conjE)
    fix err
    assume a: "\<not> isRunning s" "spawned w = Inl err"
    from cycle_spawn_throws [OF a]
    show "captureAndUpload getTimes config w s =
          (s, [Console (LogStarting (clock w) (isDay getTimes (Some (clock w)) (location config))),
               SpawnFfmpeg (rtsp_url (camera config)),
               Console (LogUnexpected (err_text err))])"
      by simp
  qed
  from entered released same exception show ?thesis by blast
qed

theorem captureAndUpload_releases_busy_flag_witness:
  "captureAndUpload example_suncalc example_config
     (example_world\<lparr>spawned := Inl (JsError ''TypeError'' ''bad argument'')\<rparr>) initial_state =
     (initial_state,
      [Console (LogStarting 150 True), SpawnFfmpeg ''rtsp://camera/stream'',
       Console (LogUnexpected ''bad argument'')])
   \<and> \<not> isRunning (fst (captureAndUpload example_suncalc example_config
                          example_world initial_state))"
  using captureAndUpload_releases_busy_flag
          [where s = initial_state and getTimes = example_suncalc and config = example_config
             and w = "example_world\<lparr>spawned := Inl (JsError ''TypeError'' ''bad argument'')\<rparr>",
           THEN conjunct2, THEN conjunct2, THEN conjunct2, rule_format,
           of "JsError ''TypeError'' ''bad argument''"]
        captureAndUpload_releases_busy_flag
          [where s = initial_state and getTimes = example_suncalc and config = example_config
             and w = example_world,
           THEN conjunct2, THEN conjunct1]
  by (simp add: initial_state_def example_world_def example_config_def example_suncalc_def
        isDay_def getSunTimes_def)

subsection \<open>The order of the steps\<close>

text \<open>
  C5. The effects of a cycle come in the order capture, weather fetch, overlay, upload,
  with exactly one ffmpeg run. When the capture gives no image, the ffmpeg run is the only
  effect of the cycle besides console output: no weather request, no overlay, no upload and
  no second capture. \<open>fetchMetar\<close> always hands back a result. With a captured image, when
  the overlay is switched off the captured image is uploaded; when it is switched on, the
  weather service is asked for the configured station, and
  \<^item> when the answer holds no usable record, the captured image is uploaded and no overlay
    is attempted;
  \<^item> when \<open>addTextOverlay\<close> returns, its effects are part of the cycle and begin with the
    read of the captured image, and the image uploaded is the captured one with the badge
    of the formatted text laid over it;
  \<^item> when \<open>addTextOverlay\<close> throws, the captured image is uploaded;
  \<^item> when \<open>formatMetarOverlay\<close> throws, as it does on a record without \<open>rawOb\<close>, the
    exception is caught only by the handler of the whole cycle: the cycle ends after the
    weather request with the line \<^verbatim>\<open>Unexpected error\<close> on the console, and the upload step is
    skipped.
\<close>

theorem captureAndUpload_formatter_exception:
  "sorted (stages (snd (captureAndUpload getTimes config w s)))
   \<and> (\<not> isRunning s \<longrightarrow>
        count_list (stages (snd (captureAndUpload getTimes config w s))) 0 = 1)
   \<and> (\<not> isRunning s \<and> captured_image config w = None \<longrightarrow>
        io_events (snd (captureAndUpload getTimes config w s)) =
          [SpawnFfmpeg (rtsp_url (camera config))])
   \<and> (\<exists>mr. fst (fetchMetar (metar_net w) (icao_code (metar config))) = Inr mr)
   \<and> (\<forall>captured.
        \<not> isRunning s \<and> captured_image config w = Some captured \<and> \<not> enabled (metar config)
        \<longrightarrow> uploads (snd (captureAndUpload getTimes config w s)) \<noteq> []
            \<and> set (uploads (snd (captureAndUpload getTimes config w s))) = {captured}
            \<and> set (stages (snd (captureAndUpload getTimes config w s))) \<subseteq> {0, 3})
   \<and> (\<forall>captured.
        \<not> isRunning s \<and> captured_image config w = Some captured \<and> enabled (metar config)
        \<longrightarrow> HttpGetMetar (icao_code (metar config))
              \<in> set (snd (captureAndUpload getTimes config w s)))
   \<and> (\<forall>captured mr.
        \<not> isRunning s \<and> captured_image config w = Some captured \<and> enabled (metar config)
        \<and> fst (fetchMetar (metar_net w) (icao_code (metar config))) = Inr mr
        \<and> usable_data mr = None
        \<longrightarrow> uploads (snd (captureAndUpload getTimes config w s)) \<noteq> []
            \<and> set (uploads (snd (captureAndUpload getTimes config w s))) = {captured}
            \<and> set (stages (snd (captureAndUpload getTimes config w s))) \<subseteq> {0, 1, 3})
   \<and> (\<forall>captured mr data overlayText overlaid evs.
        \<not> isRunning s \<and> captured_image config w = Some captured \<and> enabled (metar config)
        \<and> fst (fetchMetar (metar_net w) (icao_code (metar config))) = Inr mr
        \<and> usable_data mr = Some data \<and> formatMetarOverlay data = Inr overlayText
        \<and> addTextOverlay (overlay_env w) captured overlayText (metar config) = (Inr overlaid, evs)
        \<longrightarrow> uploads (snd (captureAndUpload getTimes config w s)) \<noteq> []
            \<and> set (uploads (snd (captureAndUpload getTimes config w s))) = {overlaid}
            \<and> set evs \<subseteq> set (snd (captureAndUpload getTimes config w s))
            \<and> SharpMetadata captured \<in> set evs
            \<and> (\<exists>svg. overlaid = Composite captured svg
                                  (positionToGravity (overlay_pos (metar config)))
                      \<and> text_content svg = escapeXml overlayText
                      \<and> SharpComposite captured svg
                            (positionToGravity (overlay_pos (metar config))) \<in> set evs))
   \<and> (\<forall>captured mr data overlayText err evs.
        \<not> isRunning s \<and> captured_image config w = Some captured \<and> enabled (metar config)
        \<and> fst (fetchMetar (metar_net w) (icao_code (metar config))) = Inr mr
        \<and> usable_data mr = Some data \<and> formatMetarOverlay data = Inr overlayText
        \<and> addTextOverlay (overlay_env w) captured overlayText (metar config) = (Inl err, evs)
        \<longrightarrow> uploads (snd (captureAndUpload getTimes config w s)) \<noteq> []
            \<and> set (uploads (snd (captureAndUpload getTimes config w s))) = {captured}
            \<and> set evs \<subseteq> set (snd (captureAndUpload getTimes config w s))
            \<and> SharpMetadata captured \<in> set evs)
   \<and> (\<forall>captured mr data err.
        \<not> isRunning s \<and> captured_image config w = Some captured \<and> enabled (metar config)
        \<and> fst (fetchMetar (metar_net w) (icao_code (metar config))) = Inr mr
        \<and> usable_data mr = Some data \<and> formatMetarOverlay data = Inl err
        \<longrightarrow> captureAndUpload getTimes config w s =
              (s, [Console (LogStarting (clock w)
                              (isDay getTimes (Some (clock w)) (location config))),
                   SpawnFfmpeg (rtsp_url (camera config)), Console (LogCaptured captured),
                   HttpGetMetar (icao_code (metar config)),
                   Console (LogUnexpected (err_text err))])
            \<and> uploads (snd (captureAndUpload getTimes config w s)) = [])"
  (is "?order \<and> ?once \<and> ?fatal \<and> ?weather \<and> ?disabled \<and> ?requested \<and> ?no_data
       \<and> ?overlaid \<and> ?overlay_throws \<and> ?format_throws")
proof -
  have order: ?order and once: ?once
    using captureAndUpload_stages [of getTimes config w s] by simp_all
  have fatal: ?fatal
    using capture_failure_io [of s config w getTimes] by simp
  have weather: ?weather
    using fetchMetar_settles [of "metar_net w" "icao_code (metar config)"] by auto
  have disabled: ?disabled
  proof (intro allI impI, elim conjE)
    fix captured
    assume a: "\<not> isRunning s" "captured_image config w = Some captured"
      and off: "\<not> enabled (metar config)"
    from cycle_sends [OF a metar_step_disabled [OF off], of getTimes]
    show "uploads (snd (captureAndUpload getTimes config w s)) \<noteq> []
            \<and> set (uploads (snd (captureAndUpload getTimes config w s))) = {captured}
            \<and> set (stages (snd (captureAndUpload getTimes config w s))) \<subseteq> {0, 3}"
      by simp
  qed
  have requested: ?requested
    using metar_requested [of s config w _ getTimes] by blast
  have no_data: ?no_data
  proof (intro allI impI, elim conjE)
    fix captured mr
    assume a: "\<not> isRunning s" "captured_image config w = Some captured"
      and b: "enabled (metar config)"
        "fst (fetchMetar (metar_net w) (icao_code (metar config))) = Inr mr"
        "usable_data mr = None"
    from cycle_sends [OF a metar_step_no_data [OF b], of getTimes]
    show "uploads (snd (captureAndUpload getTimes config w s)) \<noteq> []
            \<and> set (uploads (snd (captureAndUpload getTimes config w s))) = {captured}
            \<and> set (stages (snd (captureAndUpload getTimes config w s))) \<subseteq> {0, 1, 3}"
      by auto
  qed
  have overlaid: ?overlaid
  proof (intro allI impI, elim conjE)
    fix captured mr data overlayText overlaid evs
    assume a: "\<not> isRunning s" "captured_image config w = Some captured"
      and b: "enabled (metar config)"
        "fst (fetchMetar (metar_net w) (icao_code (metar config))) = Inr mr"
        "usable_data mr = Some data" "formatMetarOverlay data = Inr overlayText"
        "addTextOverlay (overlay_env w) captured overlayText (metar config) = (Inr overlaid, evs)"
    have begins: "SharpMetadata captured \<in> set evs"
      using addTextOverlay_begins [of captured "overlay_env w" overlayText "metar config"] b(5)
      by simp
    from cycle_sends(1,2,3) [OF a metar_step_overlaid [OF b], of getTimes]
      addTextOverlay_result [OF b(5)] begins
    show "uploads (snd (captureAndUpload getTimes config w s)) \<noteq> []
            \<and> set (uploads (snd (captureAndUpload getTimes config w s))) = {overlaid}
            \<and> set evs \<subseteq> set (snd (captureAndUpload getTimes config w s))
            \<and> SharpMetadata captured \<in> set evs
            \<and> (\<exists>svg. overlaid = Composite captured svg
                                  (positionToGravity (overlay_pos (metar config)))
                      \<and> text_content svg = escapeXml overlayText
                      \<and> SharpComposite captured svg
                            (positionToGravity (overlay_pos (metar config))) \<in> set evs)"
      by auto
  qed
  have overlay_throws: ?overlay_throws
  proof (intro allI impI, elim conjE)
    fix captured mr data overlayText err evs
    assume a: "\<not> isRunning s" "captured_image config w = Some captured"
      and b: "enabled (metar config)"
        "fst (fetchMetar (metar_net w) (icao_code (metar config))) = Inr mr"
        "usable_data mr = Some data" "formatMetarOverlay data = Inr overlayText"
        "addTextOverlay (overlay_env w) captured overlayText (metar config) = (Inl err, evs)"
    have begins: "SharpMetadata captured \<in> set evs"
      using addTextOverlay_begins [of captured "overlay_env w" overlayText "metar config"] b(5)
      by simp
    from cycle_sends(1,2,3) [OF a metar_step_overlay_throws [OF b], of getTimes] begins
    show "uploads (snd (captureAndUpload getTimes config w s)) \<noteq> []
            \<and> set (uploads (snd (captureAndUpload getTimes config w s))) = {captured}
            \<and> set evs \<subseteq> set (snd (captureAndUpload getTimes config w s))
            \<and> SharpMetadata captured \<in> set evs"
      by auto
  qed
  have format_throws: ?format_throws
  proof (intro allI impI, elim conjE)
    fix captured mr data err
    assume a: "\<not> isRunning s" "captured_image config w = Some captured"
      and b: "enabled (metar config)"
        "fst (fetchMetar (metar_net w) (icao_code (metar config))) = Inr mr"
        "usable_data mr = Some data" "formatMetarOverlay data = Inl err"
    from cycle_block_throws [OF a metar_step_format_throws [OF b], of getTimes]
    show "captureAndUpload getTimes config w s =
              (s, [Console (LogStarting (clock w)
                              (isDay getTimes (Some (clock w)) (location config))),
                   SpawnFfmpeg (rtsp_url (camera config)), Console (LogCaptured captured),
                   HttpGetMetar (icao_code (metar config)),
                   Console (LogUnexpected (err_text err))])
            \<and> uploads (snd (captureAndUpload getTimes config w s)) = []"
      by simp
  qed
  from order once fatal weather disabled requested no_data overlaid overlay_throws format_throws
  show ?thesis by blast
qed

theorem captureAndUpload_formatter_exception_witness:
  "captureAndUpload example_suncalc example_config
     (example_world\<lparr>metar_net := MetarResponse 200 NoRetryAfter (Inr (JArr [bare_record]))\<rparr>)
     initial_state =
     (initial_state,
      [Console (LogStarting 150 True), SpawnFfmpeg ''rtsp://camera/stream'',
       Console (LogCaptured (Frame ''jpg'')), HttpGetMetar ''LFRK'',
       Console (LogUnexpected
                  (''Cannot read properties of undefined (reading '' @ [CHR 0x27] @ ''match''
                     @ [CHR 0x27] @ '')''))])
   \<and> uploads (snd (captureAndUpload example_suncalc example_config
                      (example_world\<lparr>metar_net :=
                         MetarResponse 200 NoRetryAfter (Inr (JArr [bare_record]))\<rparr>)
                      initial_state)) = []
   \<and> formatMetarOverlay bare_record =
       Inl (JsError ''TypeError''
              (''Cannot read properties of undefined (reading '' @ [CHR 0x27] @ ''match''
                 @ [CHR 0x27] @ '')''))"
proof -
  let ?w = "example_world\<lparr>metar_net :=
              MetarResponse 200 NoRetryAfter (Inr (JArr [bare_record]))\<rparr>"
  let ?mr = "\<lparr>metar_success = True, metar_data = Some bare_record, metar_error = None,
              retryAfterSeconds = None\<rparr>"
  let ?err = "JsError ''TypeError''
              (''Cannot read properties of undefined (reading '' @ [CHR 0x27] @ ''match''
                 @ [CHR 0x27] @ '')'')"
  have captured: "captured_image example_config ?w = Some (Frame ''jpg'')"
    by (simp add: captured_image_def captureFrame_def captureFrame_result_def example_world_def)
  have weather: "fst (fetchMetar (metar_net ?w) (icao_code (metar example_config))) = Inr ?mr"
    by (simp add: fetchMetar_def response_ok_def)
  have usable: "usable_data ?mr = Some bare_record"
    by (simp add: usable_data_def bare_record_def)
  have throws: "formatMetarOverlay bare_record = Inl ?err"
    by (simp add: formatMetarOverlay_def bare_record_def)
  note t = captureAndUpload_formatter_exception
             [of example_suncalc example_config ?w initial_state,
              THEN conjunct2, THEN conjunct2, THEN conjunct2, THEN conjunct2, THEN conjunct2,
              THEN conjunct2, THEN conjunct2, THEN conjunct2, THEN conjunct2, rule_format,
              of "Frame ''jpg''" ?mr bare_record ?err]
  show ?thesis
    using t captured weather usable throws
    by (simp add: initial_state_def example_config_def example_world_def example_suncalc_def
          isDay_def getSunTimes_def)
qed

subsection \<open>A call during a cycle\<close>

lemma triggers_while_busy:
  assumes "isRunning s1"
  shows "foldl (\<lambda>st w. fst (captureAndUpload getTimes config w st)) s1 ws = s1
         \<and> concat (map (\<lambda>w. io_events (snd (captureAndUpload getTimes config
                                                w s1))) ws) = []"
  using assms by (induction ws) (simp_all add: captureAndUpload_def enter_cycle_def)

text \<open>
  C6. When the busy flag is set, \<open>captureAndUpload\<close> returns at once: it writes one line to
  the console and does nothing else (no ffmpeg run, no request), and it leaves the module
  state, timers included, as it is, so nothing is kept for later. In particular a call made
  in the state a running cycle has entered is turned away, and so is any number of calls
  made one after the other in that state: none of them runs ffmpeg.
\<close>

theorem captureAndUpload_skips_when_busy:
  "(isRunning s \<longrightarrow>
      captureAndUpload getTimes config w s = (s, [Console LogSkipBusy])
      \<and> io_events (snd (captureAndUpload getTimes config w s)) = [])
   \<and> (\<forall>s1. enter_cycle s = Some s1 \<longrightarrow>
        captureAndUpload getTimes config w s1 = (s1, [Console LogSkipBusy])
        \<and> foldl (\<lambda>st w'. fst (captureAndUpload getTimes config w' st)) s1 ws
            = s1
        \<and> concat (map (\<lambda>w'. io_events (snd (captureAndUpload getTimes config
                                                 w' s1))) ws) = [])"
proof -
  have busy: "isRunning s \<longrightarrow>
      captureAndUpload getTimes config w s = (s, [Console LogSkipBusy])
      \<and> io_events (snd (captureAndUpload getTimes config w s)) = []"
    by (simp add: captureAndUpload_def enter_cycle_def)
  have entered: "\<forall>s1. enter_cycle s = Some s1 \<longrightarrow>
        captureAndUpload getTimes config w s1 = (s1, [Console LogSkipBusy])
        \<and> foldl (\<lambda>st w'. fst (captureAndUpload getTimes config w' st)) s1 ws
            = s1
        \<and> concat (map (\<lambda>w'. io_events (snd (captureAndUpload getTimes config
                                                 w' s1))) ws) = []"
  proof (intro allI impI)
    fix s1
    assume "enter_cycle s = Some s1"
    then have r: "isRunning s1" by (auto simp: enter_cycle_def split: if_splits)
    then have "captureAndUpload getTimes config w s1 =
                 (s1, [Console LogSkipBusy])"
      by (simp add: captureAndUpload_def enter_cycle_def)
    with triggers_while_busy [OF r, where getTimes = getTimes and config = config and ws = ws]
    show "captureAndUpload getTimes config w s1 = (s1, [Console LogSkipBusy])
        \<and> foldl (\<lambda>st w'. fst (captureAndUpload getTimes config w' st)) s1 ws
            = s1
        \<and> concat (map (\<lambda>w'. io_events (snd (captureAndUpload getTimes config
                                                 w' s1))) ws) = []"
      by simp
  qed
  from busy entered show ?thesis by blast
qed

theorem captureAndUpload_skips_when_busy_witness:
  "captureAndUpload example_suncalc example_config example_world
     (initial_state\<lparr>isRunning := True\<rparr>) =
     (initial_state\<lparr>isRunning := True\<rparr>, [Console LogSkipBusy])
   \<and> enter_cycle initial_state = Some (initial_state\<lparr>isRunning := True\<rparr>)"
  using captureAndUpload_skips_when_busy
          [where s = "initial_state\<lparr>isRunning := True\<rparr>" and getTimes = example_suncalc
             and config = example_config and w = example_world]
  by (simp add: initial_state_def enter_cycle_def)


section \<open>Properties of the scheduler\<close>

subsection \<open>What rescheduling does to the timers\<close>

lemma filter_update_other:
  "\<not> P y \<Longrightarrow> \<not> P (xs ! h) \<Longrightarrow> filter P (xs[h := y]) = filter P xs"
  by (induction xs arbitrary: h) (auto split: nat.splits)

lemma filter_singleton_holds:
  assumes "filter P xs = [z]"
  shows "P z"
proof -
  have "z \<in> set (filter P xs)" using assms by simp
  then show ?thesis by simp
qed

lemma length_filter_update:
  "h < length xs \<Longrightarrow> P (xs ! h) \<Longrightarrow> \<not> P y \<Longrightarrow>
   Suc (length (filter P (xs[h := y]))) = length (filter P xs)"
proof (induction xs arbitrary: h)
  case Nil
  then show ?case by simp
next
  case (Cons x xs)
  show ?case
  proof (cases h)
    case 0
    with Cons.prems show ?thesis by simp
  next
    case (Suc h')
    with Cons.prems have "Suc (length (filter P (xs[h' := y]))) = length (filter P xs)"
      by (intro Cons.IH) simp_all
    with Suc show ?thesis by simp
  qed
qed

lemma filter_update_only:
  assumes "filter P xs = [xs ! h]" "h < length xs" "\<not> P y"
  shows "filter P (xs[h := y]) = []"
proof -
  have "P (xs ! h)" by (rule filter_singleton_holds [OF assms(1)])
  then have "Suc (length (filter P (xs[h := y]))) = length (filter P xs)"
    using assms(2,3) by (intro length_filter_update)
  also have "\<dots> = 1" by (simp add: assms(1))
  finally show ?thesis by simp
qed

lemma stop_current_capture:
  assumes "timers_ok s" "currentSchedule s = Some h"
  shows "running_tasks RunCaptureAndUpload (cron_stop h s) = []"
    and "running_tasks RunTransitionCheck (cron_stop h s) = running_tasks RunTransitionCheck s"
proof -
  from assms have h: "h < length (cron_tasks s)"
    and one: "running_tasks RunCaptureAndUpload s = [cron_tasks s ! h]"
    by (simp_all add: timers_ok_def)
  from one have cap: "cron_action (cron_tasks s ! h) = RunCaptureAndUpload"
    using filter_singleton_holds
            [of "\<lambda>t. cron_action t = RunCaptureAndUpload \<and> cron_running t" "cron_tasks s"
                "cron_tasks s ! h"]
    by (simp add: running_tasks_def)
  show "running_tasks RunCaptureAndUpload (cron_stop h s) = []"
    using h one by (simp add: running_tasks_def cron_stop_def filter_update_only)
  show "running_tasks RunTransitionCheck (cron_stop h s) = running_tasks RunTransitionCheck s"
    using h cap by (simp add: running_tasks_def cron_stop_def filter_update_other)
qed

text \<open>What \<open>scheduleNextCapture\<close> does to the running timers.\<close>

lemma scheduleNextCapture_timers:
  assumes "timers_ok s"
  shows "running_tasks RunCaptureAndUpload (fst (scheduleNextCapture getTimes config now s)) =
           [capture_task (getNextCaptureInterval getTimes (Some now) (location config)
                            (day_interval_minutes (schedule config))
                            (night_interval_minutes (schedule config)))]"
    and "running_tasks RunTransitionCheck (fst (scheduleNextCapture getTimes config now s)) =
           running_tasks RunTransitionCheck s @ [transition_task]"
    and "timers_ok (fst (scheduleNextCapture getTimes config now s))"
proof -
  define s1 where "s1 = (case currentSchedule s of Some h \<Rightarrow> cron_stop h s | None \<Rightarrow> s)"
  have none: "running_tasks RunCaptureAndUpload s1 = []"
    and same: "running_tasks RunTransitionCheck s1 = running_tasks RunTransitionCheck s"
    using assms stop_current_capture [OF assms]
    by (auto simp: s1_def timers_ok_def split: option.splits)
  define iv where "iv = getNextCaptureInterval getTimes (Some now) (location config)
                            (day_interval_minutes (schedule config))
                            (night_interval_minutes (schedule config))"
  have result: "fst (scheduleNextCapture getTimes config now s) =
      s1\<lparr>cron_tasks := cron_tasks s1 @ [capture_task iv, transition_task],
         currentSchedule := Some (length (cron_tasks s1))\<rparr>"
    by (simp add: scheduleNextCapture_def scheduleTransitionCheck_def cron_schedule_def Let_def
          s1_def iv_def getNextCaptureInterval_def capture_task_def transition_task_def)
  show c: "running_tasks RunCaptureAndUpload (fst (scheduleNextCapture getTimes config now s)) =
           [capture_task iv]"
    using none by (simp add: result running_tasks_def capture_task_def transition_task_def)
  show t: "running_tasks RunTransitionCheck (fst (scheduleNextCapture getTimes config now s)) =
           running_tasks RunTransitionCheck s @ [transition_task]"
    using same by (simp add: result running_tasks_def capture_task_def transition_task_def)
  show "timers_ok (fst (scheduleNextCapture getTimes config now s))"
    using assms c t by (simp add: timers_ok_def) (simp add: result)
qed


lemma scheduleNextCapture_current:
  "currentSchedule (fst (scheduleNextCapture getTimes config now s)) \<noteq> None"
  by (simp add: scheduleNextCapture_def scheduleTransitionCheck_def cron_schedule_def Let_def
        split: option.splits)

lemma timers_ok_initial: "timers_ok initial_state"
  by (simp add: timers_ok_def initial_state_def running_tasks_def)

subsection \<open>When a capture timer runs\<close>

lemma digit_facts:
  assumes "d < 10"
  shows "is_digit (''0123456789'' ! d)" and "digit_value (''0123456789'' ! d) = d"
proof -
  consider "d = 0" | "d = 1" | "d = 2" | "d = 3" | "d = 4" | "d = 5" | "d = 6" | "d = 7"
    | "d = 8" | "d = 9"
    using assms by atomize_elim arith
  then show "is_digit (''0123456789'' ! d)"
    by cases (simp_all add: is_digit_def)
  consider "d = 0" | "d = 1" | "d = 2" | "d = 3" | "d = 4" | "d = 5" | "d = 6" | "d = 7"
    | "d = 8" | "d = 9"
    using assms by atomize_elim arith
  then show "digit_value (''0123456789'' ! d) = d"
    by cases (simp_all add: digit_value_def)
qed

lemma show_nat_digits: "list_all is_digit (show_nat n) \<and> show_nat n \<noteq> []"
proof (induction n rule: show_nat.induct)
  case (1 n)
  then show ?case
    by (subst (1 2) show_nat.simps) (simp add: digit_facts)
qed

lemma read_nat_snoc: "read_nat (ds @ [c]) = 10 * read_nat ds + digit_value c"
  by (simp add: read_nat_def)

lemma read_show_nat: "read_nat (show_nat n) = n"
proof (induction n rule: show_nat.induct)
  case (1 n)
  show ?case
  proof (cases "n < 10")
    case True
    then show ?thesis
      by (subst show_nat.simps) (simp add: read_nat_def digit_facts)
  next
    case False
    with 1 show ?thesis
      by (subst show_nat.simps) (simp add: read_nat_snoc digit_facts)
  qed
qed

lemma not_digit_space: "\<not> is_digit (CHR '' '')"
  by (simp add: is_digit_def)

lemma cron_step_every: "cron_step (''*/'' @ show_nat n @ '' * * * *'') = Some n"
proof -
  have d: "\<forall>c \<in> set (show_nat n). is_digit c" and ne: "show_nat n \<noteq> []"
    using show_nat_digits [of n] by (simp_all add: list_all_iff)
  have tw: "takeWhile is_digit (show_nat n @ '' * * * *'') = show_nat n"
    using d by (simp add: not_digit_space)
  have dw: "dropWhile is_digit (show_nat n @ '' * * * *'') = '' * * * *''"
    using d by (simp add: not_digit_space)
  show ?thesis
    using tw dw ne by (simp add: cron_step_def read_show_nat)
qed

lemma fire_minutes_capture_task:
  "fire_minutes (cron_expression (capture_task n)) =
     (if n = 0 then [] else filter (\<lambda>m. m mod n = 0) [0..<60])"
  using cron_step_every [of n] by (simp add: fire_minutes_def capture_task_def)

lemma task_gaps_capture_task:
  "task_gaps (capture_task n) =
     run_gaps (if n = 0 then [] else filter (\<lambda>m. m mod n = 0) [0..<60])"
  by (simp add: task_gaps_def fire_minutes_capture_task)

lemma filter_zero: "filter (\<lambda>m. m = 0) [0..<60] = [0::nat]"
  by code_simp

lemma hourly_from_sixty:
  assumes "60 \<le> n"
  shows "task_gaps (capture_task n) = [60]"
proof -
  have "filter (\<lambda>m. m mod n = 0) [0..<60] = filter (\<lambda>m. m = 0) [0..<60]"
    using assms by (intro filter_cong) simp_all
  then show ?thesis
    using assms by (simp add: task_gaps_capture_task filter_zero)
qed

lemma below_sixty:
  "\<forall>n \<in> set [1..<60].
     list_all (\<lambda>g. g = n) (run_gaps (filter (\<lambda>m. m mod n = 0) [0..<60])) = (n dvd 60)"
  by code_simp

lemma even_gaps_iff:
  assumes "0 < n"
  shows "list_all (\<lambda>g. g = n) (task_gaps (capture_task n)) = (n dvd 60)"
proof (cases "n < 60")
  case True
  with assms have "n \<in> set [1..<60]" by simp
  with below_sixty show ?thesis
    using assms by (simp add: task_gaps_capture_task del: set_upt)
next
  case False
  then have big: "60 \<le> n" by simp
  have "(n dvd 60) = (n = 60)"
    using big assms by (auto dest: dvd_imp_le)
  then show ?thesis
    using hourly_from_sixty [OF big] by auto
qed

text \<open>
  C7. Whenever \<open>scheduleNextCapture\<close> runs at an instant \<open>now\<close>, the one capture timer left
  running is the one registered for \<open>day_interval_minutes\<close> if \<open>isDay\<close> holds at \<open>now\<close> and for
  \<open>night_interval_minutes\<close> otherwise, and a five-minute transition-check timer is running
  whose callback, once a schedule exists, is \<open>scheduleNextCapture\<close> again. So when \<open>isDay\<close>
  holds at the scheduling instant and no longer at a transition check, the check stops
  the day timer and leaves the night timer as the only capture timer. The timer for \<open>N\<close>
  minutes is registered with the expression \<^verbatim>\<open>*/N * * * *\<close>, whose step is \<open>N\<close>: it runs at
  the minutes of every hour that \<open>N\<close> divides. The transition check runs every five
  minutes. A capture timer runs every \<open>N\<close> minutes exactly when \<open>N\<close> divides 60: for \<open>N\<close> from
  60 on it runs once an hour, and for \<open>N = 45\<close> its runs are 45 and then 15 minutes apart.
\<close>

theorem capture_timer_runs_at_cron_step:
  "timers_ok initial_state
   \<and> (timers_ok s \<longrightarrow>
        timers_ok (fst (scheduleNextCapture getTimes config now s))
        \<and> timers_ok (fst (transitionCheck getTimes config now s))
        \<and> running_tasks RunCaptureAndUpload (fst (scheduleNextCapture getTimes config now s)) =
            [capture_task (getNextCaptureInterval getTimes (Some now) (location config)
                             (day_interval_minutes (schedule config))
                             (night_interval_minutes (schedule config)))]
        \<and> transition_task \<in> set (running_tasks RunTransitionCheck
                                     (fst (scheduleNextCapture getTimes config now s))))
   \<and> (currentSchedule s \<noteq> None \<longrightarrow>
        transitionCheck getTimes config now s = scheduleNextCapture getTimes config now s)
   \<and> (timers_ok s \<and> isDay getTimes (Some t0) (location config)
        \<and> \<not> isDay getTimes (Some t1) (location config) \<longrightarrow>
        running_tasks RunCaptureAndUpload (fst (scheduleNextCapture getTimes config t0 s)) =
          [capture_task (day_interval_minutes (schedule config))]
        \<and> running_tasks RunCaptureAndUpload
            (fst (transitionCheck getTimes config t1
                    (fst (scheduleNextCapture getTimes config t0 s)))) =
          [capture_task (night_interval_minutes (schedule config))])
   \<and> cron_step (cron_expression (capture_task n)) = Some n
   \<and> fire_minutes (cron_expression (capture_task n)) =
       (if n = 0 then [] else filter (\<lambda>m. m mod n = 0) [0..<60])
   \<and> task_gaps transition_task = replicate 12 5
   \<and> (0 < n \<longrightarrow> list_all (\<lambda>g. g = n) (task_gaps (capture_task n)) = (n dvd 60))
   \<and> (60 \<le> n \<longrightarrow> task_gaps (capture_task n) = [60])
   \<and> task_gaps (capture_task 45) = [45, 15]"
  (is "?init \<and> ?step \<and> ?tick \<and> ?flip \<and> ?parsed \<and> ?minutes \<and> ?check \<and> ?even \<and> ?hourly
       \<and> ?uneven")
proof -
  have step: ?step
  proof
    assume ok: "timers_ok s"
    have "timers_ok (fst (transitionCheck getTimes config now s))"
      using ok scheduleNextCapture_timers(3) [OF ok, of getTimes config now]
      by (simp add: transitionCheck_def)
    then show "timers_ok (fst (scheduleNextCapture getTimes config now s))
        \<and> timers_ok (fst (transitionCheck getTimes config now s))
        \<and> running_tasks RunCaptureAndUpload (fst (scheduleNextCapture getTimes config now s)) =
            [capture_task (getNextCaptureInterval getTimes (Some now) (location config)
                             (day_interval_minutes (schedule config))
                             (night_interval_minutes (schedule config)))]
        \<and> transition_task \<in> set (running_tasks RunTransitionCheck
                                     (fst (scheduleNextCapture getTimes config now s)))"
      using scheduleNextCapture_timers [OF ok, of getTimes config now] by simp
  qed
  have tick: ?tick by (simp add: transitionCheck_def)
  have flip: ?flip
  proof (intro impI, elim conjE)
    assume ok: "timers_ok s" and day: "isDay getTimes (Some t0) (location config)"
      and night: "\<not> isDay getTimes (Some t1) (location config)"
    let ?s0 = "fst (scheduleNextCapture getTimes config t0 s)"
    have ok0: "timers_ok ?s0" by (rule scheduleNextCapture_timers(3) [OF ok])
    have "transitionCheck getTimes config t1 ?s0 = scheduleNextCapture getTimes config t1 ?s0"
      using scheduleNextCapture_current [of getTimes config t0 s]
      by (simp add: transitionCheck_def)
    then show "running_tasks RunCaptureAndUpload ?s0 =
          [capture_task (day_interval_minutes (schedule config))]
        \<and> running_tasks RunCaptureAndUpload (fst (transitionCheck getTimes config t1 ?s0)) =
          [capture_task (night_interval_minutes (schedule config))]"
      using scheduleNextCapture_timers(1) [OF ok, of getTimes config t0]
        scheduleNextCapture_timers(1) [OF ok0, of getTimes config t1] day night
      by (simp add: getNextCaptureInterval_def)
  qed
  have parsed: ?parsed using cron_step_every [of n] by (simp add: capture_task_def)
  have minutes: ?minutes by (rule fire_minutes_capture_task)
  have check: ?check by (simp add: task_gaps_def transition_task_def) code_simp
  have even: ?even using even_gaps_iff [of n] by simp
  have hourly: ?hourly using hourly_from_sixty [of n] by simp
  have uneven: ?uneven by (simp add: task_gaps_capture_task) code_simp
  from timers_ok_initial step tick flip parsed minutes check even hourly uneven
  show ?thesis by blast
qed

theorem capture_timer_runs_at_cron_step_witness:
  "map task_gaps
     (running_tasks RunCaptureAndUpload
        (fst (scheduleNextCapture example_suncalc uneven_config 150 initial_state))) =
     [[45, 15]]
   \<and> map task_gaps
       (running_tasks RunCaptureAndUpload
          (fst (transitionCheck example_suncalc uneven_config 250
                  (fst (scheduleNextCapture example_suncalc uneven_config 150 initial_state))))) =
     [[60]]
   \<and> \<not> list_all (\<lambda>g. g = 45) (task_gaps (capture_task 45))"
proof -
  note t = capture_timer_runs_at_cron_step
             [of initial_state example_suncalc uneven_config _ 150 250 90]
  note flip = t [THEN conjunct2, THEN conjunct2, THEN conjunct2, THEN conjunct1, rule_format]
  note hourly = t [THEN conjunct2, THEN conjunct2, THEN conjunct2, THEN conjunct2,
                   THEN conjunct2, THEN conjunct2, THEN conjunct2, THEN conjunct2,
                   THEN conjunct1, rule_format]
  note uneven = t [THEN conjunct2, THEN conjunct2, THEN conjunct2, THEN conjunct2,
                   THEN conjunct2, THEN conjunct2, THEN conjunct2, THEN conjunct2,
                   THEN conjunct2]
  show ?thesis
    using flip hourly uneven timers_ok_initial
    by (simp add: example_suncalc_def example_config_def uneven_config_def isDay_def
          getSunTimes_def)
qed

subsection \<open>The number of timers\<close>

text \<open>
  C3. The scheduler does not keep exactly one transition-check timer. Every run of
  \<open>scheduleNextCapture\<close> stops the old capture timer before it starts the new one, so one
  capture timer is running; but it also registers one more transition-check timer and
  stops none. After startup one is running, after the first transition check two.
\<close>

theorem transition_timers_accumulate:
  "(timers_ok s \<longrightarrow>
      length (running_tasks RunTransitionCheck (fst (scheduleNextCapture getTimes config now s))) =
        Suc (length (running_tasks RunTransitionCheck s))
      \<and> length (running_tasks RunCaptureAndUpload
                  (fst (scheduleNextCapture getTimes config now s))) = 1)
   \<and> running_tasks RunTransitionCheck (fst (scheduleNextCapture getTimes config t0 initial_state)) =
       [transition_task]
   \<and> running_tasks RunTransitionCheck
       (fst (transitionCheck getTimes config t1
               (fst (scheduleNextCapture getTimes config t0 initial_state)))) =
       [transition_task, transition_task]"
  (is "?grows \<and> ?first \<and> ?second")
proof -
  have grows: ?grows
  proof
    assume ok: "timers_ok s"
    show "length (running_tasks RunTransitionCheck (fst (scheduleNextCapture getTimes config now s))) =
        Suc (length (running_tasks RunTransitionCheck s))
      \<and> length (running_tasks RunCaptureAndUpload
                  (fst (scheduleNextCapture getTimes config now s))) = 1"
      using scheduleNextCapture_timers(1,2) [OF ok, of getTimes config now] by simp
  qed
  let ?s0 = "fst (scheduleNextCapture getTimes config t0 initial_state)"
  have first: ?first
    using scheduleNextCapture_timers(2) [OF timers_ok_initial, of getTimes config t0]
    by (simp add: initial_state_def running_tasks_def)
  have ok0: "timers_ok ?s0" by (rule scheduleNextCapture_timers(3) [OF timers_ok_initial])
  have "transitionCheck getTimes config t1 ?s0 = scheduleNextCapture getTimes config t1 ?s0"
    using scheduleNextCapture_current [of getTimes config t0 initial_state]
    by (simp add: transitionCheck_def)
  then have second: ?second
    using scheduleNextCapture_timers(2) [OF ok0, of getTimes config t1] first by simp
  from grows first second show ?thesis by blast
qed

theorem transition_timers_accumulate_witness:
  "length (running_tasks RunTransitionCheck
     (fst (transitionCheck example_suncalc example_config 250
             (fst (scheduleNextCapture example_suncalc example_config 150 initial_state))))) = 2"
proof -
  let ?s0 = "fst (scheduleNextCapture example_suncalc example_config 150 initial_state)"
  have ok0: "timers_ok ?s0"
    by (rule scheduleNextCapture_timers(3) [OF timers_ok_initial])
  have one: "length (running_tasks RunTransitionCheck ?s0) = 1"
    using scheduleNextCapture_timers(2) [OF timers_ok_initial, of example_suncalc example_config 150]
    by (simp add: initial_state_def running_tasks_def)
  have tick: "transitionCheck example_suncalc example_config 250 ?s0 =
                scheduleNextCapture example_suncalc example_config 250 ?s0"
    using scheduleNextCapture_current [of example_suncalc example_config 150 initial_state]
    by (simp add: transitionCheck_def)
  note t = transition_timers_accumulate
             [of ?s0 example_suncalc example_config 250, THEN conjunct1, rule_format]
  show ?thesis using t ok0 one tick by simp
qed


section \<open>Properties of the overlay\<close>

text \<open>
  C4. An icon that cannot be loaded does not always leave the badge without icon. When no
  source is given, or the icon URL is answered with an error status, \<open>addTextOverlay\<close>
  returns the image with the text badge and no icon. When the local file cannot be read,
  or the request for the URL fails, the exception leaves \<open>loadIcon\<close> and \<open>addTextOverlay\<close>:
  no image is returned.
\<close>

theorem addTextOverlay_icon_failures:
  "(sharp_metadata w = None \<and> icon config = Some ic
      \<and> truthy_string (icon_svg ic) = None \<and> truthy_string (icon_path ic) = Some path
      \<and> read_file w path = Inl err
      \<longrightarrow> addTextOverlay w imageBuffer text config =
            (Inl err, [SharpMetadata imageBuffer, ReadFileSync path]))
   \<and> (sharp_metadata w = None \<and> icon config = Some ic
      \<and> truthy_string (icon_svg ic) = None \<and> truthy_string (icon_path ic) = None
      \<and> truthy_string (icon_url ic) = Some url \<and> icon_fetch w url = IconFetchRejects err
      \<longrightarrow> addTextOverlay w imageBuffer text config =
            (Inl err, [SharpMetadata imageBuffer, HttpGetIcon url]))
   \<and> (sharp_metadata w = None \<and> sharp_toBuffer w = None \<and> icon config = Some ic
      \<and> truthy_string (icon_svg ic) = None \<and> truthy_string (icon_path ic) = None
      \<and> truthy_string (icon_url ic) = Some url \<and> icon_fetch w url = IconResponse False status body
      \<longrightarrow> (\<exists>svg. addTextOverlay w imageBuffer text config =
                   (Inr (Composite imageBuffer svg (positionToGravity (overlay_pos config))),
                    [SharpMetadata imageBuffer, HttpGetIcon url,
                     Console (LogIconFetchFailed url status),
                     SharpComposite imageBuffer svg (positionToGravity (overlay_pos config))])
                 \<and> foreign_icon svg = None \<and> text_content svg = escapeXml text))
   \<and> (sharp_metadata w = None \<and> sharp_toBuffer w = None \<and> icon config = Some ic
      \<and> truthy_string (icon_svg ic) = None \<and> truthy_string (icon_path ic) = None
      \<and> truthy_string (icon_url ic) = None
      \<longrightarrow> (\<exists>svg. addTextOverlay w imageBuffer text config =
                   (Inr (Composite imageBuffer svg (positionToGravity (overlay_pos config))),
                    [SharpMetadata imageBuffer,
                     SharpComposite imageBuffer svg (positionToGravity (overlay_pos config))])
                 \<and> foreign_icon svg = None \<and> text_content svg = escapeXml text))"
  by (simp add: addTextOverlay_def loadIcon_def Let_def)

theorem addTextOverlay_icon_failures_witness:
  "addTextOverlay (overlay_env example_world) (Frame ''jpg'') ''LFRK | VFR''
     ((metar example_config)\<lparr>icon := Some example_icon\<rparr>) =
     (Inl (JsError ''Error'' ''ENOENT: no such file''),
      [SharpMetadata (Frame ''jpg''), ReadFileSync ''/etc/webcam/icon.svg''])"
  using addTextOverlay_icon_failures
          [of "overlay_env example_world" "(metar example_config)\<lparr>icon := Some example_icon\<rparr>"
              example_icon "''/etc/webcam/icon.svg''" "JsError ''Error'' ''ENOENT: no such file''",
           THEN conjunct1, rule_format, of "Frame ''jpg''" "''LFRK | VFR''"]
  by (simp add: example_world_def example_icon_def)


end
